theory Spec2Isabelle
  imports Main "HOL-Library.Multiset"
begin

section \<open>Python values shared by the three modules\<close>

text \<open>
  Exceptions are values. Every constructor is a subclass of Python's \<open>Exception\<close>, so an
  \<open>except Exception\<close> clause catches each of them. The string is the message that
  \<open>str(e)\<close> shows (for \<open>KeyError\<close>: the key, which \<open>str\<close> puts between quotes).
\<close>

datatype exn =
    Exception string
  | AssertionError string
  | IndexError string
  | KeyError string
  | NameError string
  | TypeError string
  | AttributeError string
  | ValueError string
  | OSError string
  | ClientError string
  | ProcessorJobError string

fun str_exn :: "exn \<Rightarrow> string" where
  "str_exn (Exception m) = m"
| "str_exn (AssertionError m) = m"
| "str_exn (IndexError m) = m"
| "str_exn (KeyError k) = [CHR 0x27] @ k @ [CHR 0x27]"
| "str_exn (NameError m) = m"
| "str_exn (TypeError m) = m"
| "str_exn (AttributeError m) = m"
| "str_exn (ValueError m) = m"
| "str_exn (OSError m) = m"
| "str_exn (ClientError m) = m"
| "str_exn (ProcessorJobError m) = m"

text \<open>Python truthiness of an optional string: \<open>None\<close> and the empty string are falsy.\<close>

fun truthy :: "string option \<Rightarrow> bool" where
  "truthy None = False"
| "truthy (Some s) = (s \<noteq> [])"

section \<open>processors/smasher.py: data\<close>

subsection \<open>Data frames\<close>

text \<open>
  A pandas \<open>DataFrame\<close> as the smasher uses it: the column labels (sample accession
  codes) and the rows in order, each a row label (feature identifier) with one cell per
  column. The Merger works on cells of any type \<open>'v\<close>; the Scaler on cells with a dtype.
  \<open>len(frame)\<close> is the number of rows.
\<close>

record 'v frame =
  columns :: "string list"
  rows :: "(string \<times> 'v list) list"

definition row_index :: "'v frame \<Rightarrow> string list" where
  "row_index f = map fst (rows f)"

definition len :: "'v frame \<Rightarrow> nat" where
  "len f = length (rows f)"

text \<open>Every row holds exactly one cell per column (a frame pandas can represent).\<close>

definition wf_frame :: "'v frame \<Rightarrow> bool" where
  "wf_frame f = list_all (\<lambda>r. length (snd r) = length (columns f)) (rows f)"

text \<open>
  \<open>left.merge(right, how='inner', left_index=True, right_index=True)\<close>: the rows whose
  label occurs on both sides, in the order of the left frame, the cells of the left row
  followed by the cells of the right row. A label that is repeated on the right pairs with
  each of its rows, as in pandas. The smasher only calls it on frames that share no column
  label, so the suffixes pandas gives to clashing labels never arise.
\<close>

definition merge :: "'v frame \<Rightarrow> 'v frame \<Rightarrow> 'v frame" where
  "merge left right =
     \<lparr>columns = columns left @ columns right,
      rows = concat (map (\<lambda>l. map (\<lambda>r. (fst l, snd l @ snd r))
                                   (filter (\<lambda>r. fst r = fst l) (rows right)))
                         (rows left))\<rparr>"

text \<open>
  The cells as pandas stores them. Every column has a dtype, and a cell is a value
  \<open>'v\<close> stored under the dtype of its column. \<open>Astype d c\<close> is the cell \<open>c\<close> converted
  to the dtype \<open>d\<close>: what the conversion does to the value (an integer turned into a float,
  a number boxed as an object) is left open, only the new dtype is known.
\<close>

datatype dtype = Bool | Int64 | Float64 | Object

datatype 'v cell = Stored dtype 'v | Astype dtype "'v cell"

fun dtype_of :: "'v cell \<Rightarrow> dtype" where
  "dtype_of (Stored d v) = d"
| "dtype_of (Astype d c) = d"

text \<open>\<open>astype(d)\<close> on one cell: a cell that already has the dtype is kept as it is.\<close>

definition astype :: "dtype \<Rightarrow> 'v cell \<Rightarrow> 'v cell" where
  "astype d c = (if dtype_of c = d then c else Astype d c)"

text \<open>
  The dtype pandas gives the single array it builds from columns of the given dtypes: the
  dtype they share if they all have the same, \<open>float64\<close> for a mix of \<open>int64\<close> and
  \<open>float64\<close>, \<open>object\<close> for any other mix. (Without any cell the choice has nothing to
  apply to.)
\<close>

definition common_dtype :: "dtype list \<Rightarrow> dtype" where
  "common_dtype ds =
     (case ds of
        [] \<Rightarrow> Object
      | d # others \<Rightarrow>
          if list_all (\<lambda>x. x = d) others then d
          else if list_all (\<lambda>x. x = Int64 \<or> x = Float64) ds then Float64
          else Object)"

definition frame_dtypes :: "'v cell frame \<Rightarrow> dtype list" where
  "frame_dtypes f = concat (map (\<lambda>r. map dtype_of (snd r)) (rows f))"

text \<open>All the cells of the frame have one dtype.\<close>

definition one_dtype :: "'v cell frame \<Rightarrow> bool" where
  "one_dtype f =
     (case frame_dtypes f of [] \<Rightarrow> True | d # others \<Rightarrow> list_all (\<lambda>x. x = d) others)"

text \<open>
  \<open>frame.transpose()\<close>: the row labels become the column labels, and column \<open>j\<close> becomes
  the row labelled by the \<open>j\<close>-th column label. pandas transposes the single array of the
  frame's values, so columns of different dtypes are first converted to their common
  dtype.
\<close>

definition transpose_frame :: "'v cell frame \<Rightarrow> 'v cell frame" where
  "transpose_frame f =
     (let d = common_dtype (frame_dtypes f)
      in \<lparr>columns = map fst (rows f),
          rows = map (\<lambda>(j, c). (c, map (\<lambda>r. astype d (snd r ! j)) (rows f)))
                     (enumerate 0 (columns f))\<rparr>)"

text \<open>The frame with each cell converted to the common dtype of the frame.\<close>

definition coerced :: "'v cell frame \<Rightarrow> 'v cell frame" where
  "coerced f =
     \<lparr>columns = columns f,
      rows = map (\<lambda>r. (fst r, map (astype (common_dtype (frame_dtypes f))) (snd r)))
                 (rows f)\<rparr>"

text \<open>
  \<open>pd.DataFrame(values, index=index, columns=columns)\<close> on a two-dimensional array:
  pandas raises \<open>ValueError\<close> unless the array has one row per index label and one cell
  per column label in each row.
\<close>

definition DataFrame :: "'v list list \<Rightarrow> string list \<Rightarrow> string list \<Rightarrow> exn + 'v frame" where
  "DataFrame vals idx cols =
     (if length vals = length idx \<and> list_all (\<lambda>r. length r = length cols) vals
      then Inr \<lparr>columns = cols, rows = zip idx vals\<rparr>
      else Inl (ValueError ''Shape of passed values does not match the indices''))"

subsection \<open>Job, dataset and job context\<close>

text \<open>
  The fields of the \<open>ProcessorJob\<close> and \<open>Dataset\<close> models that the smasher reads or
  writes. Both models and the context have a \<open>success\<close> and a \<open>failure_reason\<close>; the
  prefixes \<open>job_\<close>, \<open>ds_\<close> and \<open>ctx_\<close> tell them apart. The flags are nullable: the code
  tests \<open>success is False\<close>.
\<close>

record job =
  job_id :: nat
  job_success :: "bool option"
  job_failure_reason :: "string option"

record dataset =
  ds_id :: string
  aggregate_by :: string
  scale_by :: string
  quantile_normalize :: bool
  quant_sf_only :: bool
  ds_success :: "bool option"
  ds_failure_reason :: "string option"
  email_address :: "string option"
  s3_bucket :: "string option"
  s3_key :: "string option"
  size_in_bytes :: "nat option"
  sha1 :: "string option"

record computed_file =
  cf_id :: nat
  filename :: string

record sample =
  accession_code :: string

text \<open>
  The \<open>job_context\<close> dictionary. A key that a stage may find absent is an option
  (\<open>None\<close>: the key is absent); a key that an earlier stage always sets before it is
  read is a plain field.
  \<open>saved\<close> is not a key of the dictionary: it is the job store's history of
  \<open>dataset.save()\<close>, each call appending the dataset as it is written, oldest first.
\<close>

record 'v job_context =
  job :: job
  dataset :: dataset
  saved :: "dataset list"
  input_files :: "(string \<times> (computed_file \<times> sample) list) list option"
  work_dir :: string
  output_dir :: string
  all_frames :: "'v frame list"
  unsmashable_files :: "string list"
  num_samples :: nat
  original_merged :: "'v frame option"
  merged_no_qn :: "'v frame option"
  merged_qn :: "'v frame option"
  organism :: "string option"
  final_frame :: "'v frame option"
  smash_outfile :: "string option"
  output_file :: "string option"
  upload :: "bool option"
  result_url :: "string option"
  ctx_failure_reason :: "string option"
  ctx_success :: "bool option"

section \<open>processors/smasher.py: the Merger\<close>

text \<open>
  The local variables of the \<open>while\<close> loop of \<open>_inner_join\<close>, with the context it
  mutates (\<open>unsmashable_files\<close>). The counter \<open>i\<close> only selects the next frame and
  feeds the log, so the loop is a fold over the frames after the first.
\<close>

record 'v join_vars =
  merged :: "'v frame"
  old_len_merged :: nat
  merged_backup :: "'v frame"
  jctx :: "'v job_context"

text \<open>The \<open>for column in frame.columns\<close> loop that sets \<open>breaker\<close>.\<close>

definition breaker :: "'v frame \<Rightarrow> 'v frame \<Rightarrow> bool" where
  "breaker frame acc = list_ex (\<lambda>column. column \<in> set (columns acc)) (columns frame)"

text \<open>
  \<open>job_context['unsmashable_files'].append(frame.columns[0])\<close> inside
  \<open>try ... except Exception: pass\<close>: a frame without columns raises \<open>IndexError\<close>,
  which is swallowed.
\<close>

definition append_lead_column :: "'v frame \<Rightarrow> 'v job_context \<Rightarrow> 'v job_context" where
  "append_lead_column frame ctx =
     (case columns frame of
        [] \<Rightarrow> ctx
      | c # _ \<Rightarrow> ctx\<lparr>unsmashable_files := unsmashable_files ctx @ [c]\<rparr>)"

text \<open>One iteration of the loop body, for the candidate \<open>frame\<close>.\<close>

definition inner_join_step :: "'v frame \<Rightarrow> 'v join_vars \<Rightarrow> 'v join_vars" where
  "inner_join_step frame s =
     (if breaker frame (merged s) then s
      else
        let joined = merge (merged s) frame;
            new_len_merged = len joined
        in if new_len_merged = 0
           then
             let restored = merged_backup s
             in s\<lparr>merged := restored,
                  old_len_merged := len restored,
                  merged_backup := restored,
                  jctx := append_lead_column frame (jctx s)\<rparr>
           else s\<lparr>merged := joined,
                  old_len_merged := len joined,
                  merged_backup := joined\<rparr>)"

definition inner_join_init :: "'v frame \<Rightarrow> 'v job_context \<Rightarrow> 'v join_vars" where
  "inner_join_init first ctx =
     \<lparr>merged = first, old_len_merged = len first, merged_backup = first, jctx = ctx\<rparr>"

text \<open>
  \<open>_inner_join\<close>: returns the merged frame; the context comes back with it because the
  loop appends to its unsmashable list. \<open>all_frames[0]\<close> raises on an empty list.
\<close>

definition inner_join :: "'v job_context \<Rightarrow> exn + ('v frame \<times> 'v job_context)" where
  "inner_join ctx =
     (case all_frames ctx of
        [] \<Rightarrow> Inl (IndexError ''list index out of range'')
      | first # rest \<Rightarrow>
          let s = fold inner_join_step rest (inner_join_init first ctx)
          in Inr (merged s, jctx s))"

text \<open>
  The frames the Merger accepted while it ran over the candidates after the
  accumulator \<open>acc\<close>: those neither skipped for a repeated column nor rolled back.
\<close>

fun accepted :: "'v frame \<Rightarrow> 'v frame list \<Rightarrow> 'v frame list" where
  "accepted acc [] = []"
| "accepted acc (frame # rest) =
     (if breaker frame acc then accepted acc rest
      else if len (merge acc frame) = 0 then accepted acc rest
      else frame # accepted (merge acc frame) rest)"

section \<open>processors/smasher.py: the stages\<close>

subsection \<open>Collaborators\<close>

text \<open>
  What the stages call outside this module, as parameters: any function may stand for
  each. One that can raise returns the exception as a value. A stage that mutates the
  context and can raise returns both the exception, if any, and the context as the
  mutation left it, since the caller's \<open>except\<close> clause goes on with that same
  dictionary.
\<close>

type_synonym 'v outcome = "exn option \<times> 'v job_context"

datatype scaler = MinMaxScaler | StandardScaler | RobustScaler

record 'v env =
  process_frame :: "string \<Rightarrow> computed_file \<Rightarrow> string \<Rightarrow> string \<Rightarrow> exn + 'v frame option"
  sync_quant_files :: "string \<Rightarrow> sample list \<Rightarrow> exn + nat"
  first_sample_organism :: "dataset \<Rightarrow> exn + string"
  smashing_utils_quantile_normalize :: "'v job_context \<Rightarrow> 'v outcome"
  scaler_fit_transform :: "scaler \<Rightarrow> 'v list list \<Rightarrow> exn + 'v list list"
  makedirs :: "string \<Rightarrow> exn option"
  to_csv :: "'v frame \<Rightarrow> string \<Rightarrow> exn option"
  write_non_data_files :: "'v job_context \<Rightarrow> exn option"
  make_archive :: "string \<Rightarrow> string \<Rightarrow> exn option"
  RUNNING_IN_CLOUD :: bool
  RESULTS_BUCKET :: string
  upload_file :: "string \<Rightarrow> string \<Rightarrow> string \<Rightarrow> exn option"
  calculate_file_size :: "string \<Rightarrow> exn + nat"
  calculate_sha1 :: "string \<Rightarrow> exn + string"
  requests_post :: "string \<Rightarrow> string option \<Rightarrow> exn option"
  send_email :: "string \<Rightarrow> string \<Rightarrow> string \<Rightarrow> exn option"

text \<open>\<open>dataset.save()\<close>: the job store records the dataset as it is now.\<close>

definition save_dataset :: "'v job_context \<Rightarrow> 'v job_context" where
  "save_dataset ctx = ctx\<lparr>saved := saved ctx @ [dataset ctx]\<rparr>"

subsection \<open>FrameLoader\<close>

text \<open>The \<open>for (computed_file, sample) in input_files\<close> loop of \<open>process_frames_for_key\<close>.\<close>

fun load_frames ::
  "'v env \<Rightarrow> (computed_file \<times> sample) list \<Rightarrow> 'v job_context \<Rightarrow> 'v outcome" where
  "load_frames env [] ctx = (None, ctx)"
| "load_frames env ((cf, smp) # rest) ctx =
     (case process_frame env (work_dir ctx) cf (accession_code smp)
             (aggregate_by (dataset ctx)) of
        Inl e \<Rightarrow> (Some e, ctx)
      | Inr (Some frame_data) \<Rightarrow>
          load_frames env rest (ctx\<lparr>all_frames := all_frames ctx @ [frame_data]\<rparr>)
      | Inr None \<Rightarrow>
          load_frames env rest
            (ctx\<lparr>unsmashable_files := unsmashable_files ctx @ [filename cf]\<rparr>))"

definition process_frames_for_key ::
  "'v env \<Rightarrow> string \<Rightarrow> (computed_file \<times> sample) list \<Rightarrow> 'v job_context \<Rightarrow> 'v outcome" where
  "process_frames_for_key env key files ctx =
     load_frames env files
       (ctx\<lparr>original_merged := Some \<lparr>columns = [], rows = []\<rparr>, all_frames := []\<rparr>)"

subsection \<open>NormalizationAdapter\<close>

text \<open>
  The body of the \<open>try\<close> of the quantile normalization block: the working frame on
  success, the exception otherwise, each with the context as it then is.
\<close>

definition qn_try :: "'v env \<Rightarrow> 'v job_context \<Rightarrow> 'v frame \<Rightarrow> (exn + 'v frame) \<times> 'v job_context" where
  "qn_try env ctx frame =
     (let c1 = ctx\<lparr>merged_no_qn := Some frame\<rparr>
      in case first_sample_organism env (dataset c1) of
           Inl e \<Rightarrow> (Inl e, c1)
         | Inr org \<Rightarrow>
             (case smashing_utils_quantile_normalize env (c1\<lparr>organism := Some org\<rparr>) of
                (Some e, c2) \<Rightarrow> (Inl e, c2)
              | (None, c2) \<Rightarrow>
                  (case merged_qn c2 of
                     None \<Rightarrow>
                       (Inl (AssertionError
                          ''Problem occured during quantile normalization: No merged_qn''), c2)
                   | Some normalized \<Rightarrow> (Inr normalized, c2))))"

text \<open>The \<open>except Exception as e\<close> block of the quantile normalization.\<close>

definition qn_except :: "exn \<Rightarrow> 'v job_context \<Rightarrow> 'v job_context" where
  "qn_except e ctx =
     (let c1 = ctx\<lparr>dataset := (dataset ctx)\<lparr>ds_success := Some False\<rparr>\<rparr>;
          c2 = (if \<not> truthy (job_failure_reason (job c1))
                then c1\<lparr>job := (job c1)\<lparr>job_failure_reason :=
                                Some (''Failure reason: '' @ str_exn e)\<rparr>,
                        dataset := (dataset c1)\<lparr>ds_failure_reason :=
                                Some (''Failure reason: '' @ str_exn e)\<rparr>\<rparr>
                else c1);
          c3 = save_dataset c2
      in c3\<lparr>job := (job c3)\<lparr>job_success := Some False\<rparr>,
            ctx_failure_reason := Some (str_exn e)\<rparr>)"

subsection \<open>Scaler\<close>

definition SCALERS :: "(string \<times> scaler) list" where
  "SCALERS = [(''MINMAX'', MinMaxScaler), (''STANDARD'', StandardScaler),
              (''ROBUST'', RobustScaler)]"

text \<open>
  The transpose, scale and transpose-back lines of \<open>_smash_key\<close>, from the working frame
  to \<open>untransposed\<close>. \<open>SCALERS[scale_by]\<close> raises \<open>KeyError\<close> for an unknown name;
  \<open>scaler.fit\<close> followed by \<open>scaler.transform\<close> is one collaborator call on the cells of
  the transposed frame.
\<close>

definition scale_frame ::
  "'v cell env \<Rightarrow> string \<Rightarrow> 'v cell frame \<Rightarrow> exn + 'v cell frame" where
  "scale_frame env how frame =
     (let transposed = transpose_frame frame
      in if how \<noteq> ''NONE''
         then (case map_of SCALERS how of
                 None \<Rightarrow> Inl (KeyError how)
               | Some scale_function \<Rightarrow>
                   (case scaler_fit_transform env scale_function
                           (map snd (rows transposed)) of
                      Inl e \<Rightarrow> Inl e
                    | Inr vals \<Rightarrow>
                        (case DataFrame vals (row_index transposed) (columns transposed) of
                           Inl e \<Rightarrow> Inl e
                         | Inr scaled \<Rightarrow> Inr (transpose_frame scaled))))
         else Inr (transpose_frame transposed))"

subsection \<open>\<open>_smash_key\<close>\<close>

text \<open>
  The end of \<open>_smash_key\<close>: keep the final frame and write it as a tab-separated file.
  Renaming the index to \<open>Gene\<close> has no counterpart here, a frame of this model having no
  index name.
\<close>

definition write_key :: "'v env \<Rightarrow> string \<Rightarrow> 'v frame \<Rightarrow> 'v job_context \<Rightarrow> 'v outcome" where
  "write_key env key untransposed ctx =
     (let c1 = ctx\<lparr>final_frame := Some untransposed\<rparr>;
          outfile_dir = output_dir c1 @ key @ ''/''
      in case makedirs env outfile_dir of
           Some e \<Rightarrow> (Some e, c1)
         | None \<Rightarrow>
             (let outfile = outfile_dir @ key @ ''.tsv'';
                  c2 = c1\<lparr>smash_outfile := Some outfile\<rparr>
              in (to_csv env untransposed outfile, c2)))"

text \<open>\<open>_smash_key\<close> after the frames are merged: normalize, scale, write.\<close>

definition smash_merged ::
  "'v cell env \<Rightarrow> string \<Rightarrow> 'v cell frame \<Rightarrow> 'v cell job_context \<Rightarrow> 'v cell outcome" where
  "smash_merged env key frame ctx =
     (let c1 = ctx\<lparr>original_merged := Some frame\<rparr>;
          qn = (if quantile_normalize (dataset c1) then qn_try env c1 frame
                else (Inr frame, c1))
      in case qn of
           (Inl e, c2) \<Rightarrow> (None, qn_except e c2)
         | (Inr working, c2) \<Rightarrow>
             (case scale_frame env (scale_by (dataset c2)) working of
                Inl e \<Rightarrow> (Some e, c2)
              | Inr untransposed \<Rightarrow> write_key env key untransposed c2))"

definition smash_key ::
  "'v cell env \<Rightarrow> 'v cell job_context \<Rightarrow> string \<Rightarrow> (computed_file \<times> sample) list
     \<Rightarrow> 'v cell outcome" where
  "smash_key env ctx key files =
     (if quant_sf_only (dataset ctx)
      then
        (let outfile_dir = output_dir ctx @ key @ ''/''
         in case makedirs env outfile_dir of
              Some e \<Rightarrow> (Some e, ctx)
            | None \<Rightarrow>
                (case sync_quant_files env outfile_dir (map snd files) of
                   Inl e \<Rightarrow> (Some e, ctx)
                 | Inr n \<Rightarrow> (None, ctx\<lparr>num_samples := num_samples ctx + n\<rparr>)))
      else
        (case process_frames_for_key env key files ctx of
           (Some e, c1) \<Rightarrow> (Some e, c1)
         | (None, c1) \<Rightarrow>
             if length (all_frames c1) < 1 then (None, c1)
             else
               (case inner_join c1 of
                  Inl e \<Rightarrow> (Some e, c1)
                | Inr (frame, c2) \<Rightarrow> smash_merged env key frame c2)))"

subsection \<open>\<open>_smash_all\<close>\<close>

text \<open>The \<open>for key, input_files in ...items()\<close> loop; an exception leaves it.\<close>

fun smash_keys ::
  "'v cell env \<Rightarrow> (string \<times> (computed_file \<times> sample) list) list \<Rightarrow> 'v cell job_context
     \<Rightarrow> 'v cell outcome" where
  "smash_keys env [] ctx = (None, ctx)"
| "smash_keys env ((key, files) # rest) ctx =
     (case smash_key env ctx key files of
        (Some e, c) \<Rightarrow> (Some e, c)
      | (None, c) \<Rightarrow> smash_keys env rest c)"

text \<open>The body of the \<open>try\<close> of \<open>_smash_all\<close>.\<close>

definition smash_all_try :: "'v cell env \<Rightarrow> 'v cell job_context \<Rightarrow> 'v cell outcome" where
  "smash_all_try env ctx =
     (let c0 = ctx\<lparr>unsmashable_files := [], num_samples := 0\<rparr>
      in case input_files c0 of
           None \<Rightarrow> (Some (KeyError ''input_files''), c0)
         | Some groups \<Rightarrow>
             (case smash_keys env groups (c0\<lparr>input_files := None\<rparr>) of
                (Some e, c1) \<Rightarrow> (Some e, c1)
              | (None, c1) \<Rightarrow>
                  (case write_non_data_files env c1 of
                     Some e \<Rightarrow> (Some e, c1)
                   | None \<Rightarrow>
                       (let final_zip_base =
                              ''/home/user/data_store/smashed/'' @ ds_id (dataset c1)
                        in case make_archive env final_zip_base (output_dir c1) of
                             Some e \<Rightarrow> (Some e, c1)
                           | None \<Rightarrow>
                               (None, c1\<lparr>output_file := Some (final_zip_base @ ''.zip'')\<rparr>)))))"

text \<open>The \<open>except Exception as e\<close> block of \<open>_smash_all\<close>.\<close>

definition smash_all_except :: "exn \<Rightarrow> 'v job_context \<Rightarrow> 'v job_context" where
  "smash_all_except e ctx =
     (let c1 = ctx\<lparr>dataset := (dataset ctx)\<lparr>ds_success := Some False,
                        ds_failure_reason := Some (''Failure reason: '' @ str_exn e)\<rparr>,
                    job := (job ctx)\<lparr>job_failure_reason :=
                        Some (''Failure reason: '' @ str_exn e)\<rparr>\<rparr>;
          c2 = save_dataset c1
      in c2\<lparr>job := (job c2)\<lparr>job_success := Some False\<rparr>,
            ctx_failure_reason := Some (str_exn e)\<rparr>)"

definition smash_all :: "'v cell env \<Rightarrow> 'v cell job_context \<Rightarrow> 'v cell outcome" where
  "smash_all env ctx =
     (if job_success (job ctx) = Some False then (None, ctx)
      else
        (case smash_all_try env ctx of
           (Some e, c) \<Rightarrow> (None, smash_all_except e c)
         | (None, c) \<Rightarrow>
             (None, save_dataset (c\<lparr>dataset := (dataset c)\<lparr>ds_success := Some True\<rparr>\<rparr>))))"

subsection \<open>Delivery: \<open>_upload\<close> and \<open>_notify\<close>\<close>

text \<open>\<open>path.split('/')[-1]\<close>: what follows the last slash.\<close>

definition last_component :: "string \<Rightarrow> string" where
  "last_component path = rev (takeWhile (\<lambda>c. c \<noteq> CHR ''/'') (rev path))"

text \<open>\<open>job_context.get("upload", True)\<close>.\<close>

definition get_upload :: "'v job_context \<Rightarrow> bool" where
  "get_upload ctx = (case upload ctx of None \<Rightarrow> True | Some b \<Rightarrow> b)"

text \<open>
  The body of the \<open>try\<close> of \<open>_upload\<close> for the archive \<open>file\<close>. The \<open>OSError\<close> of
  \<open>os.remove\<close> is swallowed on the spot and changes nothing.
\<close>

definition upload_try :: "'v env \<Rightarrow> string \<Rightarrow> 'v job_context \<Rightarrow> 'v outcome" where
  "upload_try env file ctx =
     (if get_upload ctx \<and> RUNNING_IN_CLOUD env
      then
        (case upload_file env file (RESULTS_BUCKET env) (last_component file) of
           Some e \<Rightarrow> (Some e, ctx)
         | None \<Rightarrow>
             (let c1 = ctx\<lparr>result_url := Some (''https://s3.amazonaws.com/''
                              @ RESULTS_BUCKET env @ ''/'' @ last_component file)\<rparr>;
                  c2 = c1\<lparr>dataset := (dataset c1)\<lparr>s3_bucket := Some (RESULTS_BUCKET env),
                              s3_key := Some (last_component file)\<rparr>\<rparr>
              in case calculate_file_size env file of
                   Inl e \<Rightarrow> (Some e, c2)
                 | Inr n \<Rightarrow>
                     (let c3 = c2\<lparr>dataset := (dataset c2)\<lparr>size_in_bytes := Some n\<rparr>\<rparr>
                      in case calculate_sha1 env file of
                           Inl e \<Rightarrow> (Some e, c3)
                         | Inr h \<Rightarrow>
                             (None, save_dataset
                                (c3\<lparr>dataset := (dataset c3)\<lparr>sha1 := Some h\<rparr>\<rparr>)))))
      else (None, ctx))"

text \<open>
  \<open>_upload\<close> (the context has a key \<open>upload\<close> too, hence the name of the stage here).
\<close>

definition upload_stage :: "'v env \<Rightarrow> 'v job_context \<Rightarrow> 'v outcome" where
  "upload_stage env ctx =
     (case output_file ctx of
        None \<Rightarrow> (None, ctx)
      | Some file \<Rightarrow>
          if file = [] then (None, ctx)
          else
            (case upload_try env file ctx of
               (Some e, c) \<Rightarrow>
                 (None, c\<lparr>job := (job c)\<lparr>job_success := Some False,
                             job_failure_reason :=
                               Some (''Failure reason: '' @ str_exn e)\<rparr>\<rparr>)
             | (None, c) \<Rightarrow> (None, c)))"

text \<open>
  \<open>_notify_slack_failed_dataset\<close>: one \<open>requests.post\<close> to the operations webhook, with
  the dataset's page and the job's failure reason.
\<close>

definition notify_slack_failed_dataset :: "'v env \<Rightarrow> 'v job_context \<Rightarrow> exn option" where
  "notify_slack_failed_dataset env ctx =
     requests_post env (''https://www.refine.bio/dataset/'' @ ds_id (dataset ctx))
       (job_failure_reason (job ctx))"

text \<open>
  \<open>_notify_send_email\<close> to \<open>recipient\<close>. In the failure branch \<open>str.replace\<close> raises
  \<open>TypeError\<close> when the job has no failure reason, before the context's
  \<open>success\<close> is set. The HTML bodies are left out.
\<close>

definition notify_send_email :: "'v env \<Rightarrow> string \<Rightarrow> 'v job_context \<Rightarrow> 'v outcome" where
  "notify_send_email env recipient ctx =
     (let dataset_url = ''https://www.refine.bio/dataset/'' @ ds_id (dataset ctx)
      in if job_success (job ctx) = Some False
         then
           (case job_failure_reason (job ctx) of
              None \<Rightarrow> (Some (TypeError ''replace() argument 2 must be str, not None''), ctx)
            | Some reason \<Rightarrow>
                (let c1 = ctx\<lparr>ctx_success := Some False\<rparr>
                 in (send_email env recipient
                       ''There was a problem processing your refine.bio dataset :(''
                       reason, c1)))
         else (send_email env recipient ''Your refine.bio Dataset is Ready!'' dataset_url, ctx))"

text \<open>
  \<open>_notify\<close>. The handler of the general exception reads \<open>job_context['result_url']\<close>
  while it builds the \<open>ProcessorJobError\<close>, which raises \<open>KeyError\<close> instead when no
  upload has set that key.
\<close>

definition notify :: "'v env \<Rightarrow> 'v job_context \<Rightarrow> 'v outcome" where
  "notify env ctx =
     (if \<not> get_upload ctx \<or> \<not> RUNNING_IN_CLOUD env then (None, ctx)
      else
        (case (if job_success (job ctx) = Some False
               then notify_slack_failed_dataset env ctx else None) of
           swallowed \<Rightarrow>
             (case email_address (dataset ctx) of
                None \<Rightarrow> (None, ctx)
              | Some recipient \<Rightarrow>
                  if recipient = [] then (None, ctx)
                  else
                    (case notify_send_email env recipient ctx of
                       (None, c) \<Rightarrow> (None, c)
                     | (Some (ClientError m), c) \<Rightarrow>
                         (Some (ProcessorJobError ''ClientError while notifying''), c)
                     | (Some e, c) \<Rightarrow>
                         (case result_url c of
                            None \<Rightarrow> (Some (KeyError ''result_url''), c)
                          | Some url \<Rightarrow>
                              (Some (ProcessorJobError
                                 ''General failure when trying to send email.''), c))))))"

section \<open>surveyor/transcriptome_index.py\<close>

text \<open>
  A value of the species dictionary parsed from JSON: a string, or anything else with the
  text \<open>str\<close> gives it (a taxonomy id is a number).
\<close>

datatype jv = JString string | JOther string

fun str_jv :: "jv \<Rightarrow> string" where
  "str_jv (JString s) = s"
| "str_jv (JOther s) = s"

type_synonym species = "string \<rightharpoonup> jv"

definition upper_char :: "char \<Rightarrow> char" where
  "upper_char c =
     (let n = (of_char c :: nat) in if 97 \<le> n \<and> n \<le> 122 then char_of (n - 32) else c)"

definition lower_char :: "char \<Rightarrow> char" where
  "lower_char c =
     (let n = (of_char c :: nat) in if 65 \<le> n \<and> n \<le> 90 then char_of (n + 32) else c)"

text \<open>\<open>str.capitalize()\<close> on ASCII text: the first character upper case, the rest lower.\<close>

fun capitalize :: "string \<Rightarrow> string" where
  "capitalize [] = []"
| "capitalize (c # cs) = upper_char c # map lower_char cs"

text \<open>\<open>s.replace("_", " ")\<close>.\<close>

definition underscores_to_spaces :: "string \<Rightarrow> string" where
  "underscores_to_spaces s = map (\<lambda>c. if c = CHR ''_'' then CHR '' '' else c) s"

datatype builder_class =
    EnsemblUrlBuilder
  | MainEnsemblUrlBuilder
  | EnsemblProtistsUrlBuilder
  | EnsemblFungiUrlBuilder

text \<open>An instance: its class and the attributes the constructors set.\<close>

record builder =
  cls :: builder_class
  url_root :: string
  assembly :: jv
  assembly_version :: jv
  species_sub_dir :: jv
  filename_species :: string
  taxonomy_id :: jv
  scientific_name :: string

text \<open>\<open>species[key]\<close> and \<open>species[key].capitalize()\<close>.\<close>

definition getitem :: "species \<Rightarrow> string \<Rightarrow> exn + jv" where
  "getitem sp key = (case sp key of None \<Rightarrow> Inl (KeyError key) | Some v \<Rightarrow> Inr v)"

definition capitalize_item :: "species \<Rightarrow> string \<Rightarrow> exn + string" where
  "capitalize_item sp key =
     (case getitem sp key of
        Inl e \<Rightarrow> Inl e
      | Inr (JString s) \<Rightarrow> Inr (capitalize s)
      | Inr (JOther s) \<Rightarrow> Inl (AttributeError ''object has no attribute capitalize''))"

text \<open>
  \<open>EnsemblUrlBuilder.__init__\<close>, the statements in their order. \<open>release\<close> is what
  fetching the release number from the Ensembl REST service gives. \<open>c\<close> is the class of
  the object under construction.
\<close>

definition EnsemblUrlBuilder_init ::
  "builder_class \<Rightarrow> (exn + jv) \<Rightarrow> species \<Rightarrow> exn + builder" where
  "EnsemblUrlBuilder_init c release sp =
     (case getitem sp ''assembly_name'' of
        Inl e \<Rightarrow> Inl e
      | Inr asm \<Rightarrow>
     (case release of
        Inl e \<Rightarrow> Inl e
      | Inr version \<Rightarrow>
     (case getitem sp ''name'' of
        Inl e \<Rightarrow> Inl e
      | Inr sub_dir \<Rightarrow>
     (case capitalize_item sp ''name'' of
        Inl e \<Rightarrow> Inl e
      | Inr fname \<Rightarrow>
     (case getitem sp ''taxonomy_id'' of
        Inl e \<Rightarrow> Inl e
      | Inr tax \<Rightarrow>
          Inr \<lparr>cls = c,
               url_root = ''ensembl.org/pub/release-{assembly_version}'',
               assembly = asm,
               assembly_version = version,
               species_sub_dir = sub_dir,
               filename_species = fname,
               taxonomy_id = tax,
               scientific_name = underscores_to_spaces fname\<rparr>)))))"

text \<open>
  \<open>EnsemblProtistsUrlBuilder.__init__\<close>: the base constructor, then the file name
  comes from the key \<open>species\<close>.
\<close>

definition EnsemblProtistsUrlBuilder_init ::
  "builder_class \<Rightarrow> (exn + jv) \<Rightarrow> species \<Rightarrow> exn + builder" where
  "EnsemblProtistsUrlBuilder_init c release sp =
     (case EnsemblUrlBuilder_init c release sp of
        Inl e \<Rightarrow> Inl e
      | Inr b \<Rightarrow>
          (case capitalize_item sp ''species'' of
             Inl e \<Rightarrow> Inl e
           | Inr fname \<Rightarrow> Inr (b\<lparr>filename_species := fname\<rparr>)))"

text \<open>
  \<open>EnsemblFungiUrlBuilder.__init__\<close>: the Protists constructor, then the assembly
  \<open>TIGR\<close> is renamed \<open>CADRE\<close>.
\<close>

definition EnsemblFungiUrlBuilder_init ::
  "builder_class \<Rightarrow> (exn + jv) \<Rightarrow> species \<Rightarrow> exn + builder" where
  "EnsemblFungiUrlBuilder_init c release sp =
     (case EnsemblProtistsUrlBuilder_init c release sp of
        Inl e \<Rightarrow> Inl e
      | Inr b \<Rightarrow>
          Inr (if assembly b = JString ''TIGR'' then b\<lparr>assembly := JString ''CADRE''\<rparr> else b))"

text \<open>
  \<open>build_gtf_url\<close>: \<open>GTF_URL_TEMPLATE\<close> filled in, \<open>url_root\<close> being the attribute with
  the release number in place of its one field.
\<close>

definition format_url_root :: "builder \<Rightarrow> string" where
  "format_url_root b = ''ensembl.org/pub/release-'' @ str_jv (assembly_version b)"

definition build_gtf_url :: "builder \<Rightarrow> string" where
  "build_gtf_url b =
     ''ftp://ftp.'' @ format_url_root b @ ''/gtf/'' @ str_jv (species_sub_dir b) @ ''/''
       @ filename_species b @ ''.'' @ str_jv (assembly b) @ ''.''
       @ str_jv (assembly_version b) @ ''.gtf.gz''"

text \<open>\<open>ensembl_url_builder_factory\<close>: \<open>return EnsemblUrlBuilder(species)\<close>.\<close>

definition ensembl_url_builder_factory :: "(exn + jv) \<Rightarrow> species \<Rightarrow> exn + builder" where
  "ensembl_url_builder_factory release sp =
     EnsemblUrlBuilder_init EnsemblUrlBuilder release sp"

section \<open>downloaders/array_express.py\<close>

record batch =
  batch_id :: nat
  download_url :: string

text \<open>
  The \<open>for batch in batches\<close> loop of \<open>_verify_batch_grouping\<close> over the batches still
  to visit; \<open>batches[0]\<close> is read from the whole list at each visit.
\<close>

fun verify_loop :: "batch list \<Rightarrow> batch list \<Rightarrow> exn option" where
  "verify_loop batches [] = None"
| "verify_loop batches (b # rest) =
     (case batches of
        [] \<Rightarrow> Some (IndexError ''list index out of range'')
      | first # others \<Rightarrow>
          if download_url b \<noteq> download_url first
          then Some (ValueError
                 ''A batch doesn't have the same download url as other batches.'')
          else verify_loop batches rest)"

text \<open>
  \<open>_verify_batch_grouping\<close>: the exception it raises, if any, and the batches as the call
  leaves them (it assigns to nothing).
\<close>

definition verify_batch_grouping :: "batch list \<Rightarrow> nat \<Rightarrow> exn option \<times> batch list" where
  "verify_batch_grouping batches job_number = (verify_loop batches batches, batches)"

section \<open>Concrete inputs\<close>

text \<open>
  Single-sample frames of \<open>float64\<close> cells (the value is its text), a fresh job and dataset as a run starts with,
  and a context around them.
\<close>

definition frame_ab :: "string cell frame" where
  "frame_ab =
     \<lparr>columns = [''S1''],
      rows = [(''A'', [Stored Float64 ''1.0'']), (''B'', [Stored Float64 ''2.0''])]\<rparr>"

definition frame_cd :: "string cell frame" where
  "frame_cd =
     \<lparr>columns = [''S2''],
      rows = [(''C'', [Stored Float64 ''3.0'']), (''D'', [Stored Float64 ''4.0''])]\<rparr>"

definition frame_s1_again :: "string cell frame" where
  "frame_s1_again = \<lparr>columns = [''S1''], rows = [(''C'', [Stored Float64 ''5.0''])]\<rparr>"

definition frame_abc :: "string cell frame" where
  "frame_abc =
     \<lparr>columns = [''S3''],
      rows = [(''A'', [Stored Float64 ''6.0'']), (''B'', [Stored Float64 ''7.0'']),
              (''C'', [Stored Float64 ''8.0''])]\<rparr>"

definition frame_bcd :: "string cell frame" where
  "frame_bcd =
     \<lparr>columns = [''S4''],
      rows = [(''B'', [Stored Float64 ''9.0'']), (''C'', [Stored Float64 ''10.0'']),
              (''D'', [Stored Float64 ''11.0''])]\<rparr>"

definition fresh_job :: job where
  "fresh_job = \<lparr>job_id = 1, job_success = None, job_failure_reason = None\<rparr>"

definition fresh_dataset :: dataset where
  "fresh_dataset =
     \<lparr>ds_id = ''d1'', aggregate_by = ''EXPERIMENT'', scale_by = ''NONE'',
      quantile_normalize = False, quant_sf_only = False, ds_success = None,
      ds_failure_reason = None, email_address = None, s3_bucket = None, s3_key = None,
      size_in_bytes = None, sha1 = None\<rparr>"

definition fresh_ctx :: "string cell job_context" where
  "fresh_ctx =
     \<lparr>job = fresh_job, dataset = fresh_dataset, saved = [], input_files = None,
      work_dir = ''/work/'', output_dir = ''/out/'', all_frames = [],
      unsmashable_files = [], num_samples = 0, original_merged = None,
      merged_no_qn = None, merged_qn = None, organism = None, final_frame = None,
      smash_outfile = None, output_file = None, upload = Some True, result_url = None,
      ctx_failure_reason = None, ctx_success = None\<rparr>"

text \<open>
  A frame of two samples, one column of \<open>int64\<close> and one of \<open>float64\<close>; and two
  frames that repeat the row label \<open>A\<close>.
\<close>

definition mixed_frame :: "string cell frame" where
  "mixed_frame =
     \<lparr>columns = [''S5'', ''S6''],
      rows = [(''A'', [Stored Int64 ''1'', Stored Float64 ''2.5''])]\<rparr>"

definition frame_aab :: "string cell frame" where
  "frame_aab =
     \<lparr>columns = [''S7''],
      rows = [(''A'', [Stored Float64 ''1.0'']), (''A'', [Stored Float64 ''2.0'']),
              (''B'', [Stored Float64 ''3.0''])]\<rparr>"

definition frame_aab_other :: "string cell frame" where
  "frame_aab_other =
     \<lparr>columns = [''S8''],
      rows = [(''A'', [Stored Float64 ''4.0'']), (''A'', [Stored Float64 ''5.0'']),
              (''B'', [Stored Float64 ''6.0''])]\<rparr>"

text \<open>
  Four frames of one key: the first three merge down to the row \<open>C\<close>, the fourth shares
  no row with that and is rolled back.
\<close>

definition scenario_ctx :: "string cell job_context" where
  "scenario_ctx = fresh_ctx\<lparr>all_frames := [frame_abc, frame_bcd, frame_cd, frame_ab]\<rparr>"

text \<open>
  Collaborators that all succeed: no file is usable, normalization hands the merged frame
  back, the scaler turns every cell into 0.5.
\<close>

definition working_env :: "string cell env" where
  "working_env =
     \<lparr>process_frame = (\<lambda>w cf a g. Inr None),
      sync_quant_files = (\<lambda>d ss. Inr (length ss)),
      first_sample_organism = (\<lambda>d. Inr ''HOMO_SAPIENS''),
      smashing_utils_quantile_normalize = (\<lambda>c. (None, c\<lparr>merged_qn := merged_no_qn c\<rparr>)),
      scaler_fit_transform =
        (\<lambda>sc vals. Inr (map (map (\<lambda>x. Stored Float64 ''0.5'')) vals)),
      makedirs = (\<lambda>d. None),
      to_csv = (\<lambda>f p. None),
      write_non_data_files = (\<lambda>c. None),
      make_archive = (\<lambda>b d. None),
      RUNNING_IN_CLOUD = True,
      RESULTS_BUCKET = ''refinebio-results-bucket'',
      upload_file = (\<lambda>f b k. None),
      calculate_file_size = (\<lambda>f. Inr 42),
      calculate_sha1 = (\<lambda>f. Inr ''da39a3ee''),
      requests_post = (\<lambda>u r. None),
      send_email = (\<lambda>r s b. None)\<rparr>"

text \<open>
  A species of the Fungi division whose assembly is named \<open>TIGR\<close>, and two batches with
  different download URLs.
\<close>

definition tigr_species :: species where
  "tigr_species =
     [''name'' \<mapsto> JString ''aspergillus_fumigatus'',
      ''species'' \<mapsto> JString ''aspergillus_fumigatusa1163'',
      ''assembly_name'' \<mapsto> JString ''TIGR'',
      ''taxonomy_id'' \<mapsto> JOther ''330879'']"

definition batch_one :: batch where
  "batch_one = \<lparr>batch_id = 1, download_url = ''ftp://example.org/E-1.zip''\<rparr>"

definition batch_two :: batch where
  "batch_two = \<lparr>batch_id = 2, download_url = ''ftp://example.org/E-2.zip''\<rparr>"

text \<open>
  One key \<open>GSE1\<close> with one sample file, a dataset that asks for quantile normalization,
  and collaborators whose normalization raises; an archive ready for delivery, with
  collaborators whose upload or whose mail service raises.
\<close>

definition the_file :: computed_file where
  "the_file = \<lparr>cf_id = 10, filename = ''GSM1.tsv''\<rparr>"

definition the_sample :: sample where
  "the_sample = \<lparr>accession_code = ''S1''\<rparr>"

definition qn_failing_env :: "string cell env" where
  "qn_failing_env =
     working_env\<lparr>process_frame := (\<lambda>w cf a g. Inr (Some frame_ab)),
                  smashing_utils_quantile_normalize :=
                    (\<lambda>c. (Some (Exception ''no QN target''), c))\<rparr>"

definition qn_ctx :: "string cell job_context" where
  "qn_ctx =
     fresh_ctx\<lparr>dataset := fresh_dataset\<lparr>quantile_normalize := True\<rparr>,
                input_files := Some [(''GSE1'', [(the_file, the_sample)])]\<rparr>"

definition key_ctx :: "string cell job_context" where
  "key_ctx = qn_ctx\<lparr>input_files := None\<rparr>"

definition second_failure_env :: "string cell env" where
  "second_failure_env =
     qn_failing_env\<lparr>smashing_utils_quantile_normalize :=
                       (\<lambda>c. (Some (Exception ''second failure''), c))\<rparr>"

definition upload_failing_env :: "string cell env" where
  "upload_failing_env = working_env\<lparr>upload_file := (\<lambda>f b k. Some (Exception ''S3 down''))\<rparr>"

definition mail_failing_env :: "string cell env" where
  "mail_failing_env =
     working_env\<lparr>send_email := (\<lambda>r s b. Some (ClientError ''Email address is not verified''))\<rparr>"

definition packaged_ctx :: "string cell job_context" where
  "packaged_ctx =
     fresh_ctx\<lparr>dataset := fresh_dataset\<lparr>ds_success := Some True,
                               email_address := Some ''user@example.org''\<rparr>,
                output_file := Some ''/home/user/data_store/smashed/d1.zip''\<rparr>"

section \<open>The Merger: lemmas\<close>

lemma breaker_iff: "breaker frame acc \<longleftrightarrow> set (columns frame) \<inter> set (columns acc) \<noteq> {}"
  by (auto simp: breaker_def list_ex_iff)

text \<open>The backup always equals the accumulator between two iterations.\<close>

lemma step_backup_inv:
  "merged_backup s = merged s \<Longrightarrow>
   merged_backup (inner_join_step frame s) = merged (inner_join_step frame s)"
  by (simp add: inner_join_step_def Let_def)

lemma fold_backup_inv:
  "merged_backup s = merged s \<Longrightarrow>
   merged_backup (fold inner_join_step fs s) = merged (fold inner_join_step fs s)"
  by (induction fs arbitrary: s) (simp_all add: step_backup_inv)

lemma init_backup_inv:
  "merged_backup (inner_join_init first ctx) = merged (inner_join_init first ctx)"
  by (simp add: inner_join_init_def)

lemma set_row_index_merge:
  "set (row_index (merge a b)) = set (row_index a) \<inter> set (row_index b)"
  by (force simp: row_index_def merge_def)

lemma filter_key_distinct:
  "distinct (map fst ys) \<Longrightarrow>
   map (\<lambda>r. k) (filter (\<lambda>r. fst r = k) ys) = (if k \<in> fst ` set ys then [k] else [])"
  by (induction ys) (auto simp: image_iff)

lemma concat_keep:
  "concat (map (\<lambda>l. if fst l \<in> S then [fst l] else []) xs)
     = filter (\<lambda>k. k \<in> S) (map fst xs)"
  by (induction xs) auto

lemma row_index_merge_distinct:
  "distinct (row_index b) \<Longrightarrow>
   row_index (merge a b) = filter (\<lambda>k. k \<in> set (row_index b)) (row_index a)"
  by (simp add: row_index_def merge_def map_concat comp_def filter_key_distinct concat_keep)

lemma distinct_merge:
  "distinct (row_index a) \<Longrightarrow> distinct (row_index b) \<Longrightarrow> distinct (row_index (merge a b))"
  by (simp add: row_index_merge_distinct)

lemma len_row_index: "len f = length (row_index f)"
  by (simp add: len_def row_index_def)

lemma subset_len:
  "distinct (row_index m) \<Longrightarrow> set (row_index m) \<subseteq> set (row_index f) \<Longrightarrow> len m \<le> len f"
  by (metis len_row_index card_mono distinct_card List.finite_set card_length le_trans)

section \<open>The Merger: duplicate columns and rollback\<close>

text \<open>
  C4. A merge step whose candidate frame has a column name that the accumulator already
  has changes nothing at all: the accumulator after the step is the accumulator before
  it, none of the candidate's columns is merged, and the job and the dataset, with their
  success flags, are as they were.
\<close>

theorem duplicate_column_skips_frame:
  assumes "set (columns frame) \<inter> set (columns (merged s)) \<noteq> {}"
  shows "inner_join_step frame s = s
         \<and> merged (inner_join_step frame s) = merged s
         \<and> job (jctx (inner_join_step frame s)) = job (jctx s)
         \<and> dataset (jctx (inner_join_step frame s)) = dataset (jctx s)"
proof -
  from assms have "breaker frame (merged s)" by (simp add: breaker_iff)
  then have "inner_join_step frame s = s" by (simp add: inner_join_step_def)
  then show ?thesis by simp
qed

theorem duplicate_column_skips_frame_witness:
  "set (columns frame_s1_again)
     \<inter> set (columns (merged (inner_join_init frame_ab fresh_ctx))) \<noteq> {}
   \<and> merged (inner_join_step frame_s1_again (inner_join_init frame_ab fresh_ctx)) = frame_ab
   \<and> job_success (job (jctx (inner_join_step frame_s1_again
                                (inner_join_init frame_ab fresh_ctx)))) = None"
proof -
  have h: "set (columns frame_s1_again)
             \<inter> set (columns (merged (inner_join_init frame_ab fresh_ctx))) \<noteq> {}"
    by (simp add: frame_s1_again_def frame_ab_def inner_join_init_def)
  show ?thesis
    using h duplicate_column_skips_frame [OF h]
    by (simp add: inner_join_init_def fresh_ctx_def fresh_job_def)
qed

text \<open>
  C3, as the code has it. At any point of the loop (after the frames \<open>earlier\<close>), when
  the candidate shares no column name with the accumulator and their inner join on the
  row index has no row, the accumulator after the step is the accumulator before it, and
  the context is the one before the step with the candidate's first column name appended
  once to the unsmashable list (nothing is appended when the candidate has no column to
  read).
\<close>

theorem rollback_restores_snapshot:
  assumes "s = fold inner_join_step earlier (inner_join_init first ctx)"
    and "set (columns frame) \<inter> set (columns (merged s)) = {}"
    and "len (merge (merged s) frame) = 0"
  shows "merged (inner_join_step frame s) = merged s
         \<and> jctx (inner_join_step frame s)
             = (jctx s)\<lparr>unsmashable_files :=
                          unsmashable_files (jctx s) @ take 1 (columns frame)\<rparr>"
proof -
  have inv: "merged_backup s = merged s"
    unfolding assms(1) by (rule fold_backup_inv) (rule init_backup_inv)
  from assms(2) have nb: "\<not> breaker frame (merged s)" by (simp add: breaker_iff)
  show ?thesis
    using inv nb assms(3)
    by (cases "columns frame")
       (simp_all add: inner_join_step_def append_lead_column_def Let_def)
qed

theorem rollback_restores_snapshot_witness:
  "set (columns frame_cd)
     \<inter> set (columns (merged (fold inner_join_step [] (inner_join_init frame_ab fresh_ctx)))) = {}
   \<and> len (merge (merged (fold inner_join_step [] (inner_join_init frame_ab fresh_ctx)))
             frame_cd) = 0
   \<and> merged (inner_join_step frame_cd (inner_join_init frame_ab fresh_ctx)) = frame_ab
   \<and> unsmashable_files (jctx (inner_join_step frame_cd (inner_join_init frame_ab fresh_ctx)))
       = [''S2'']"
proof -
  let ?s = "fold inner_join_step [] (inner_join_init frame_ab fresh_ctx)"
  have h1: "set (columns frame_cd) \<inter> set (columns (merged ?s)) = {}"
    by (simp add: frame_cd_def frame_ab_def inner_join_init_def)
  have h2: "len (merge (merged ?s) frame_cd) = 0"
    by (simp add: frame_cd_def frame_ab_def inner_join_init_def len_def merge_def)
  show ?thesis
    using h1 h2 rollback_restores_snapshot [OF refl h1 h2]
    by (simp add: inner_join_init_def fresh_ctx_def frame_cd_def)
qed

text \<open>
  C3 as stated fails where the candidate repeats a column name of the accumulator: the
  inner join of \<open>frame_ab\<close> and \<open>frame_s1_again\<close> has no row and the candidate's first
  column name \<open>S1\<close> can be read, yet the step is the duplicate-column skip, which comes
  before any join, and the unsmashable list stays empty.
\<close>

theorem rollback_skipped_on_duplicate_column:
  "len (merge frame_ab frame_s1_again) = 0
   \<and> columns frame_s1_again = [''S1'']
   \<and> unsmashable_files fresh_ctx = []
   \<and> merged (inner_join_step frame_s1_again (inner_join_init frame_ab fresh_ctx)) = frame_ab
   \<and> unsmashable_files (jctx (inner_join_step frame_s1_again
                                 (inner_join_init frame_ab fresh_ctx))) = []"
  by (simp add: len_def merge_def frame_ab_def frame_s1_again_def inner_join_step_def
        inner_join_init_def breaker_def fresh_ctx_def)

section \<open>The Merger: rows of the result\<close>

lemma fold_rows_subset:
  "merged_backup s = merged s \<Longrightarrow>
   set (row_index (merged (fold inner_join_step fs s)))
     \<subseteq> set (row_index (merged s)) \<inter> (\<Inter>f \<in> set (accepted (merged s) fs). set (row_index f))"
proof (induction fs arbitrary: s)
  case Nil
  then show ?case by simp
next
  case (Cons f fs)
  let ?s' = "inner_join_step f s"
  have inv: "merged_backup ?s' = merged ?s'" using Cons.prems by (rule step_backup_inv)
  note IH = Cons.IH [OF inv]
  show ?case
  proof (cases "breaker f (merged s) \<or> len (merge (merged s) f) = 0")
    case True
    then have m: "merged ?s' = merged s"
      using Cons.prems by (auto simp: inner_join_step_def Let_def)
    from True have a: "accepted (merged s) (f # fs) = accepted (merged s) fs" by auto
    show ?thesis using IH unfolding m a by simp
  next
    case False
    then have m: "merged ?s' = merge (merged s) f"
      by (auto simp: inner_join_step_def Let_def)
    from False have a: "accepted (merged s) (f # fs) = f # accepted (merge (merged s) f) fs"
      by auto
    show ?thesis using IH unfolding m a by (auto simp: set_row_index_merge)
  qed
qed

lemma fold_distinct:
  "merged_backup s = merged s \<Longrightarrow> distinct (row_index (merged s)) \<Longrightarrow>
   \<forall>f \<in> set fs. distinct (row_index f) \<Longrightarrow>
   distinct (row_index (merged (fold inner_join_step fs s)))"
proof (induction fs arbitrary: s)
  case Nil
  then show ?case by simp
next
  case (Cons f fs)
  let ?s' = "inner_join_step f s"
  have inv: "merged_backup ?s' = merged ?s'" using Cons.prems(1) by (rule step_backup_inv)
  have "merged ?s' = merged s \<or> merged ?s' = merge (merged s) f"
    using Cons.prems(1) by (auto simp: inner_join_step_def Let_def)
  then have "distinct (row_index (merged ?s'))"
    using Cons.prems by (auto simp: distinct_merge)
  then show ?case using Cons.IH [OF inv] Cons.prems(3) by simp
qed

text \<open>
  C5, as the code has it. For a non-empty list of frames, \<open>_inner_join\<close> returns a frame
  whose row labels all occur in every accepted frame (the first frame and those neither
  skipped for a repeated column nor rolled back); and when the row labels of each frame
  are distinct, its row count is at most the least row count of the accepted frames.
\<close>

theorem merged_rows_within_accepted:
  assumes "all_frames ctx = first # rest"
  shows "\<exists>m c. inner_join ctx = Inr (m, c)
           \<and> set (row_index m) \<subseteq> (\<Inter>f \<in> set (first # accepted first rest). set (row_index f))
           \<and> ((\<forall>f \<in> set (first # rest). distinct (row_index f))
                \<longrightarrow> len m \<le> Min (len ` set (first # accepted first rest)))"
proof -
  let ?init = "inner_join_init first ctx"
  let ?fin = "fold inner_join_step rest ?init"
  have m0: "merged ?init = first" by (simp add: inner_join_init_def)
  have run: "inner_join ctx = Inr (merged ?fin, jctx ?fin)"
    using assms by (simp add: inner_join_def Let_def)
  have sub: "set (row_index (merged ?fin))
               \<subseteq> (\<Inter>f \<in> set (first # accepted first rest). set (row_index f))"
    using fold_rows_subset [OF init_backup_inv, of rest first ctx] by (simp add: m0)
  have cnt: "len (merged ?fin) \<le> Min (len ` set (first # accepted first rest))"
    if d: "\<forall>f \<in> set (first # rest). distinct (row_index f)"
  proof -
    have dm: "distinct (row_index (merged ?fin))"
      using fold_distinct [OF init_backup_inv, of first ctx rest] d by (simp add: m0)
    have "len (merged ?fin) \<le> len f" if "f \<in> set (first # accepted first rest)" for f
      using sub that by (intro subset_len [OF dm]) blast
    then show ?thesis by (intro Min.boundedI) auto
  qed
  from run sub cnt show ?thesis by blast
qed

theorem merged_rows_within_accepted_witness:
  "all_frames scenario_ctx = frame_abc # [frame_bcd, frame_cd, frame_ab]
   \<and> distinct (row_index frame_abc) \<and> distinct (row_index frame_bcd)
   \<and> distinct (row_index frame_cd) \<and> distinct (row_index frame_ab)
   \<and> accepted frame_abc [frame_bcd, frame_cd, frame_ab] = [frame_bcd, frame_cd]
   \<and> (\<exists>m c. inner_join scenario_ctx = Inr (m, c)
         \<and> set (row_index m) \<subseteq> {''C''} \<and> len m \<le> 2)"
proof -
  have h: "all_frames scenario_ctx = frame_abc # [frame_bcd, frame_cd, frame_ab]"
    by (simp add: scenario_ctx_def)
  have d: "\<forall>f \<in> set (frame_abc # [frame_bcd, frame_cd, frame_ab]). distinct (row_index f)"
    by (simp add: row_index_def frame_abc_def frame_bcd_def frame_cd_def frame_ab_def)
  have a: "accepted frame_abc [frame_bcd, frame_cd, frame_ab] = [frame_bcd, frame_cd]"
    by (simp add: frame_abc_def frame_bcd_def frame_cd_def frame_ab_def breaker_def
          merge_def len_def)
  have i: "(\<Inter>f \<in> set (frame_abc # [frame_bcd, frame_cd]). set (row_index f)) = {''C''}"
    by (auto simp: row_index_def frame_abc_def frame_bcd_def frame_cd_def)
  have n: "Min (len ` set (frame_abc # [frame_bcd, frame_cd])) = 2"
    by (simp add: len_def frame_abc_def frame_bcd_def frame_cd_def)
  show ?thesis
    using merged_rows_within_accepted [OF h] d h a i n by (simp only: a i n) auto
qed

text \<open>
  C5 as stated fails for frames that repeat a row label: the join pairs every row of a
  label on the left with every row of that label on the right, so two accepted frames of
  three rows each, with the label \<open>A\<close> twice in both, merge to five rows.
\<close>

theorem repeated_labels_multiply_rows:
  "len frame_aab = 3 \<and> len frame_aab_other = 3
   \<and> accepted frame_aab [frame_aab_other] = [frame_aab_other]
   \<and> map_sum id (\<lambda>p. (row_index (fst p), len (fst p)))
         (inner_join (fresh_ctx\<lparr>all_frames := [frame_aab, frame_aab_other]\<rparr>))
       = Inr ([''A'', ''A'', ''A'', ''A'', ''B''], 5)"
  by (simp add: len_def merge_def row_index_def breaker_def frame_aab_def frame_aab_other_def
        inner_join_def inner_join_step_def inner_join_init_def fresh_ctx_def Let_def)

text \<open>
  C7. The result depends on the order of the frames: \<open>frame_ab\<close> and \<open>frame_cd\<close> share no
  row, so whichever comes second is rolled back and the result is the one that comes
  first.
\<close>

theorem merger_order_sensitive:
  "\<exists>fs fs' m m' c c'.
     mset fs' = mset fs
     \<and> accepted (hd fs) (tl fs) \<noteq> tl fs
     \<and> inner_join (fresh_ctx\<lparr>all_frames := fs\<rparr>) = Inr (m, c)
     \<and> inner_join (fresh_ctx\<lparr>all_frames := fs'\<rparr>) = Inr (m', c')
     \<and> m \<noteq> m'"
proof -
  have p: "mset [frame_cd, frame_ab] = mset [frame_ab, frame_cd]" by simp
  have a: "accepted (hd [frame_ab, frame_cd]) (tl [frame_ab, frame_cd]) \<noteq> tl [frame_ab, frame_cd]"
    by (simp add: frame_ab_def frame_cd_def breaker_def merge_def len_def)
  have r1: "inner_join (fresh_ctx\<lparr>all_frames := [frame_ab, frame_cd]\<rparr>)
              = Inr (frame_ab, fresh_ctx\<lparr>all_frames := [frame_ab, frame_cd],
                                           unsmashable_files := [''S2'']\<rparr>)"
    by (simp add: inner_join_def inner_join_step_def inner_join_init_def Let_def breaker_def
          merge_def len_def append_lead_column_def frame_ab_def frame_cd_def fresh_ctx_def)
  have r2: "inner_join (fresh_ctx\<lparr>all_frames := [frame_cd, frame_ab]\<rparr>)
              = Inr (frame_cd, fresh_ctx\<lparr>all_frames := [frame_cd, frame_ab],
                                           unsmashable_files := [''S1'']\<rparr>)"
    by (simp add: inner_join_def inner_join_step_def inner_join_init_def Let_def breaker_def
          merge_def len_def append_lead_column_def frame_ab_def frame_cd_def fresh_ctx_def)
  have ne: "frame_ab \<noteq> frame_cd" by (simp add: frame_ab_def frame_cd_def)
  from p a r1 r2 ne show ?thesis by blast
qed

section \<open>The Scaler\<close>

lemma columns_transpose: "columns (transpose_frame f) = row_index f"
  by (simp add: transpose_frame_def row_index_def Let_def)

lemma row_index_transpose: "row_index (transpose_frame f) = columns f"
  by (simp add: transpose_frame_def row_index_def comp_def case_prod_beta Let_def)

lemma len_transpose: "len (transpose_frame f) = length (columns f)"
  by (simp add: len_row_index row_index_transpose)

lemma dtype_of_astype: "dtype_of (astype d c) = d"
  by (simp add: astype_def)

lemma astype_same: "dtype_of c = d \<Longrightarrow> astype d c = c"
  by (simp add: astype_def)

lemma common_dtype_const:
  "ds \<noteq> [] \<Longrightarrow> \<forall>x \<in> set ds. x = d \<Longrightarrow> common_dtype ds = d"
  by (cases ds) (auto simp: common_dtype_def list_all_iff)

text \<open>The cells of a transposed frame all have the common dtype of the frame.\<close>

lemma frame_dtypes_transpose:
  "\<forall>x \<in> set (frame_dtypes (transpose_frame f)). x = common_dtype (frame_dtypes f)"
  by (auto simp: frame_dtypes_def transpose_frame_def Let_def dtype_of_astype)

lemma cell_of_transpose:
  assumes "i < length (rows f)" and "j < length (columns f)"
  shows "snd (rows (transpose_frame f) ! j) ! i
           = astype (common_dtype (frame_dtypes f)) (snd (rows f ! i) ! j)"
  using assms by (simp add: transpose_frame_def Let_def nth_enumerate_eq)

lemma transpose_transpose:
  assumes "wf_frame f"
  shows "transpose_frame (transpose_frame f) = coerced f"
proof -
  let ?d = "common_dtype (frame_dtypes f)"
  let ?t = "transpose_frame f"
  let ?d' = "common_dtype (frame_dtypes ?t)"
  have cols: "columns (transpose_frame ?t) = columns (coerced f)"
    by (simp add: columns_transpose row_index_transpose coerced_def)
  have lt: "length (rows ?t) = length (columns f)"
    using len_transpose [of f] by (simp add: len_def)
  have lc: "length (columns ?t) = length (rows f)"
    by (simp add: columns_transpose row_index_def)
  have rws: "rows (transpose_frame ?t) = rows (coerced f)"
  proof (rule nth_equalityI)
    show "length (rows (transpose_frame ?t)) = length (rows (coerced f))"
      using len_transpose [of ?t] lc by (simp add: len_def coerced_def)
  next
    fix i assume "i < length (rows (transpose_frame ?t))"
    then have i: "i < length (rows f)"
      using len_transpose [of ?t] lc by (simp add: len_def)
    then have n: "length (snd (rows f ! i)) = length (columns f)"
      using assms by (simp add: wf_frame_def list_all_length)
    have lab: "fst (rows (transpose_frame ?t) ! i) = fst (rows f ! i)"
      using i lc row_index_transpose [of ?t] columns_transpose [of f]
      by (metis length_map nth_map row_index_def)
    have cells: "snd (rows (transpose_frame ?t) ! i) = map (astype ?d) (snd (rows f ! i))"
    proof (rule nth_equalityI)
      show "length (snd (rows (transpose_frame ?t) ! i)) = length (map (astype ?d) (snd (rows f ! i)))"
        using i lc lt n by (simp add: transpose_frame_def [of ?t] Let_def nth_enumerate_eq)
    next
      fix j assume "j < length (snd (rows (transpose_frame ?t) ! i))"
      then have j: "j < length (columns f)"
        using i lc lt by (simp add: transpose_frame_def [of ?t] Let_def nth_enumerate_eq)
      have "rows ?t ! j \<in> set (rows ?t)" using j lt by simp
      moreover have "snd (rows ?t ! j) \<noteq> []"
        using i j by (auto simp: transpose_frame_def Let_def nth_enumerate_eq)
      ultimately have ne: "frame_dtypes ?t \<noteq> []"
        unfolding frame_dtypes_def by fastforce
      have d': "?d' = ?d"
        by (rule common_dtype_const [OF ne frame_dtypes_transpose])
      have "snd (rows (transpose_frame ?t) ! i) ! j = astype ?d' (snd (rows ?t ! j) ! i)"
        using i j lc lt by (intro cell_of_transpose) simp_all
      also have "\<dots> = astype ?d (astype ?d (snd (rows f ! i) ! j))"
        using i j by (simp add: d' cell_of_transpose)
      also have "\<dots> = astype ?d (snd (rows f ! i) ! j)"
        by (simp add: astype_same dtype_of_astype)
      finally show "snd (rows (transpose_frame ?t) ! i) ! j
                      = map (astype ?d) (snd (rows f ! i)) ! j"
        using j n by simp
    qed
    from lab cells i show "rows (transpose_frame ?t) ! i = rows (coerced f) ! i"
      by (simp add: coerced_def prod_eq_iff)
  qed
  from cols rws show ?thesis by simp
qed

text \<open>Converting changes nothing in a frame whose cells all have one dtype.\<close>

lemma coerced_one_dtype:
  assumes "one_dtype f"
  shows "coerced f = f"
proof -
  let ?d = "common_dtype (frame_dtypes f)"
  have same: "dtype_of c = ?d" if "r \<in> set (rows f)" "c \<in> set (snd r)" for r c
  proof -
    from that have m: "dtype_of c \<in> set (frame_dtypes f)"
      by (auto simp: frame_dtypes_def)
    then obtain d others where ds: "frame_dtypes f = d # others"
      by (cases "frame_dtypes f") auto
    with assms have all: "\<forall>x \<in> set (frame_dtypes f). x = d"
      by (simp add: one_dtype_def list_all_iff)
    then have "?d = d" using ds by (intro common_dtype_const) simp_all
    with all m show ?thesis by simp
  qed
  have "map (\<lambda>r. (fst r, map (astype ?d) (snd r))) (rows f) = rows f"
    by (rule map_idI) (simp add: prod_eq_iff map_idI astype_same same)
  then show ?thesis by (simp add: coerced_def)
qed

lemma DataFrame_labels:
  "DataFrame vals idx cols = Inr g \<Longrightarrow> row_index g = idx \<and> columns g = cols"
  by (auto simp: DataFrame_def row_index_def split: if_splits)

lemma DataFrame_total:
  "length vals = length idx \<Longrightarrow> list_all (\<lambda>r. length r = length cols) vals \<Longrightarrow>
   \<exists>g. DataFrame vals idx cols = Inr g"
  by (simp add: DataFrame_def)

lemma scale_frame_scaled:
  assumes "how \<noteq> ''NONE''" and "scale_frame env how frame = Inr out"
  shows "\<exists>vals scaled. DataFrame vals (columns frame) (row_index frame) = Inr scaled
                        \<and> out = transpose_frame scaled"
  using assms
  by (auto simp: scale_frame_def Let_def row_index_transpose columns_transpose
           split: option.splits sum.splits)

lemma scale_frame_labels:
  assumes "how \<noteq> ''NONE''" and "scale_frame env how frame = Inr out"
  shows "row_index out = row_index frame \<and> columns out = columns frame"
proof -
  from scale_frame_scaled [OF assms] obtain vals scaled where
    df: "DataFrame vals (columns frame) (row_index frame) = Inr scaled"
    and out: "out = transpose_frame scaled" by blast
  from DataFrame_labels [OF df] show ?thesis
    by (simp add: out row_index_transpose columns_transpose)
qed

lemma scale_frame_total:
  assumes "map_of SCALERS how = Some sc"
    and "how \<noteq> ''NONE''"
    and "scaler_fit_transform env sc (map snd (rows (transpose_frame frame))) = Inr vals"
    and "length vals = length (columns frame)"
    and "list_all (\<lambda>r. length r = len frame) vals"
  shows "\<exists>out. scale_frame env how frame = Inr out"
proof -
  have "\<exists>g. DataFrame vals (row_index (transpose_frame frame))
               (columns (transpose_frame frame)) = Inr g"
    using assms(4,5)
    by (intro DataFrame_total) (simp_all add: row_index_transpose columns_transpose len_row_index)
  then show ?thesis using assms(1,2,3) by (auto simp: scale_frame_def Let_def)
qed

text \<open>
  C8, as the code has it. For a merged frame with one cell per column in each row: with
  \<open>scale_by = NONE\<close> the Scaler returns the frame with the labels of its input and
  each cell converted to the common dtype of the frame's columns, which the first
  transpose brings about; that is the input itself when all the cells have one dtype
  (stated for a frame with at least one row: a column without cells shows no dtype
  here). With \<open>MINMAX\<close>, \<open>STANDARD\<close> or \<open>ROBUST\<close> any frame it returns has the row
  labels, the column labels and the row and column counts of the input, and it does
  return one whenever the scaler's transform gives back an array of the shape of the
  array it was given.
\<close>

theorem scaler_keeps_labels:
  assumes "wf_frame frame"
  shows "scale_frame env ''NONE'' frame = Inr (coerced frame)
         \<and> columns (coerced frame) = columns frame
         \<and> row_index (coerced frame) = row_index frame
         \<and> (rows frame \<noteq> [] \<and> one_dtype frame
            \<longrightarrow> scale_frame env ''NONE'' frame = Inr frame)
         \<and> (how \<in> {''MINMAX'', ''STANDARD'', ''ROBUST''}
              \<and> scale_frame env how frame = Inr out
            \<longrightarrow> row_index out = row_index frame \<and> columns out = columns frame
                \<and> len out = len frame \<and> length (columns out) = length (columns frame))
         \<and> (how \<in> {''MINMAX'', ''STANDARD'', ''ROBUST''}
              \<and> map_of SCALERS how = Some sc
              \<and> scaler_fit_transform env sc (map snd (rows (transpose_frame frame))) = Inr vals
              \<and> length vals = length (columns frame)
              \<and> list_all (\<lambda>r. length r = len frame) vals
            \<longrightarrow> (\<exists>scaled. scale_frame env how frame = Inr scaled))"
proof (intro conjI impI)
  show none: "scale_frame env ''NONE'' frame = Inr (coerced frame)"
    using assms by (simp add: scale_frame_def transpose_transpose)
  show "columns (coerced frame) = columns frame"
    by (simp add: coerced_def)
  show "row_index (coerced frame) = row_index frame"
    by (simp add: coerced_def row_index_def comp_def)
  show "scale_frame env ''NONE'' frame = Inr frame"
    if "rows frame \<noteq> [] \<and> one_dtype frame"
    using that none by (simp add: coerced_one_dtype)
next
  assume a: "how \<in> {''MINMAX'', ''STANDARD'', ''ROBUST''}
             \<and> scale_frame env how frame = Inr out"
  then have "how \<noteq> ''NONE''" by auto
  from scale_frame_labels [OF this] a
  have l: "row_index out = row_index frame \<and> columns out = columns frame" by blast
  then show "row_index out = row_index frame" "columns out = columns frame"
    "len out = len frame" "length (columns out) = length (columns frame)"
    by (simp_all add: len_row_index)
next
  assume a: "how \<in> {''MINMAX'', ''STANDARD'', ''ROBUST''}
              \<and> map_of SCALERS how = Some sc
              \<and> scaler_fit_transform env sc (map snd (rows (transpose_frame frame))) = Inr vals
              \<and> length vals = length (columns frame)
              \<and> list_all (\<lambda>r. length r = len frame) vals"
  then have "how \<noteq> ''NONE''" by auto
  with a show "\<exists>scaled. scale_frame env how frame = Inr scaled"
    by (intro scale_frame_total [of how sc env frame vals]) simp_all
qed

theorem scaler_keeps_labels_witness:
  "wf_frame frame_ab \<and> rows frame_ab \<noteq> [] \<and> one_dtype frame_ab
   \<and> scale_frame working_env ''NONE'' frame_ab = Inr frame_ab
   \<and> ''MINMAX'' \<in> {''MINMAX'', ''STANDARD'', ''ROBUST''}
   \<and> scale_frame working_env ''MINMAX'' frame_ab
       = Inr \<lparr>columns = [''S1''],
              rows = [(''A'', [Stored Float64 ''0.5'']), (''B'', [Stored Float64 ''0.5''])]\<rparr>
   \<and> map_of SCALERS ''MINMAX'' = Some MinMaxScaler
   \<and> scaler_fit_transform working_env MinMaxScaler
        (map snd (rows (transpose_frame frame_ab)))
       = Inr [[Stored Float64 ''0.5'', Stored Float64 ''0.5'']]
   \<and> length [[Stored Float64 ''0.5'', Stored Float64 ''0.5'' :: string cell]]
       = length (columns frame_ab)
   \<and> list_all (\<lambda>r. length r = len frame_ab)
        [[Stored Float64 ''0.5'', Stored Float64 ''0.5'' :: string cell]]
   \<and> row_index \<lparr>columns = [''S1''],
                 rows = [(''A'', [Stored Float64 ''0.5'' :: string cell]),
                         (''B'', [Stored Float64 ''0.5''])]\<rparr>
       = row_index frame_ab"
proof -
  let ?out = "\<lparr>columns = [''S1''],
               rows = [(''A'', [Stored Float64 ''0.5'' :: string cell]),
                       (''B'', [Stored Float64 ''0.5''])]\<rparr>"
  let ?vals = "[[Stored Float64 ''0.5'', Stored Float64 ''0.5'' :: string cell]]"
  have w: "wf_frame frame_ab" by (simp add: wf_frame_def frame_ab_def)
  have r: "rows frame_ab \<noteq> []" by (simp add: frame_ab_def)
  have o: "one_dtype frame_ab" by (simp add: one_dtype_def frame_dtypes_def frame_ab_def)
  have b: "''MINMAX'' \<in> {''MINMAX'', ''STANDARD'', ''ROBUST''}" by simp
  have s: "scale_frame working_env ''MINMAX'' frame_ab = Inr ?out"
    by (simp add: scale_frame_def SCALERS_def working_env_def transpose_frame_def
          DataFrame_def row_index_def frame_ab_def frame_dtypes_def common_dtype_def
          astype_def Let_def)
  have t: "scaler_fit_transform working_env MinMaxScaler
             (map snd (rows (transpose_frame frame_ab))) = Inr ?vals"
    by (simp add: working_env_def transpose_frame_def frame_ab_def Let_def)
  have l: "length ?vals = length (columns frame_ab)"
    and l': "list_all (\<lambda>r. length r = len frame_ab) ?vals"
    by (simp_all add: frame_ab_def len_def)
  have m: "map_of SCALERS ''MINMAX'' = Some MinMaxScaler" by (simp add: SCALERS_def)
  from w r o b s t l l' m
    scaler_keeps_labels [OF w, of working_env "''MINMAX''" ?out MinMaxScaler ?vals]
  show ?thesis by blast
qed

text \<open>
  C8 as stated fails for a frame with an \<open>int64\<close> column and a \<open>float64\<close> column: with
  \<open>scale_by = NONE\<close> the first transpose converts the integer cell to \<open>float64\<close>, and
  the frame that comes back is not the input.
\<close>

theorem double_transpose_changes_mixed_frame:
  "wf_frame mixed_frame
   \<and> scale_frame working_env ''NONE'' mixed_frame
       = Inr \<lparr>columns = [''S5'', ''S6''],
              rows = [(''A'', [Astype Float64 (Stored Int64 ''1''), Stored Float64 ''2.5''])]\<rparr>
   \<and> scale_frame working_env ''NONE'' mixed_frame \<noteq> Inr mixed_frame"
  by (simp add: wf_frame_def scale_frame_def transpose_frame_def frame_dtypes_def
        common_dtype_def astype_def mixed_frame_def Let_def)

section \<open>The URL builder factory\<close>

text \<open>
  C9. For every species dictionary the factory is the base constructor run for the class
  \<open>EnsemblUrlBuilder\<close>: an instance it returns has that class, its file name is the
  capitalized \<open>name\<close> (not the \<open>species\<close> key of the Protists and Fungi builders) and
  its assembly is \<open>assembly_name\<close> as given (not renamed as the Fungi builder does); and
  it does return an instance when the dictionary has the keys the base constructor reads
  and the release number can be fetched.
\<close>

theorem factory_returns_base_builder:
  "ensembl_url_builder_factory release sp = EnsemblUrlBuilder_init EnsemblUrlBuilder release sp
   \<and> (ensembl_url_builder_factory release sp = Inr b
      \<longrightarrow> cls b = EnsemblUrlBuilder
          \<and> (\<exists>name. sp ''name'' = Some (JString name) \<and> filename_species b = capitalize name
                \<and> species_sub_dir b = JString name)
          \<and> sp ''assembly_name'' = Some (assembly b)
          \<and> release = Inr (assembly_version b))
   \<and> (sp ''assembly_name'' = Some asm \<and> release = Inr version
        \<and> sp ''name'' = Some (JString name) \<and> sp ''taxonomy_id'' = Some tax
      \<longrightarrow> (\<exists>made. ensembl_url_builder_factory release sp = Inr made))"
  by (auto simp: ensembl_url_builder_factory_def EnsemblUrlBuilder_init_def getitem_def
        capitalize_item_def split: option.splits sum.splits jv.splits)

theorem factory_returns_base_builder_witness:
  "(\<exists>b. ensembl_url_builder_factory (Inr (JOther ''104'')) tigr_species = Inr b
        \<and> cls b = EnsemblUrlBuilder
        \<and> filename_species b = ''Aspergillus_fumigatus''
        \<and> assembly b = JString ''TIGR''
        \<and> build_gtf_url b = ''ftp://ftp.ensembl.org/pub/release-104/gtf/aspergillus_fumigatus/Aspergillus_fumigatus.TIGR.104.gtf.gz'')
   \<and> tigr_species ''assembly_name'' = Some (JString ''TIGR'')
   \<and> tigr_species ''name'' = Some (JString ''aspergillus_fumigatus'')
   \<and> tigr_species ''taxonomy_id'' = Some (JOther ''330879'')"
proof -
  have k: "tigr_species ''assembly_name'' = Some (JString ''TIGR'')"
    "tigr_species ''name'' = Some (JString ''aspergillus_fumigatus'')"
    "tigr_species ''taxonomy_id'' = Some (JOther ''330879'')"
    by (simp_all add: tigr_species_def)
  have c: "capitalize ''aspergillus_fumigatus'' = ''Aspergillus_fumigatus''"
    by code_simp
  note t = factory_returns_base_builder [of "Inr (JOther ''104'')" tigr_species _
             "JString ''TIGR''" "JOther ''104''" "''aspergillus_fumigatus''" "JOther ''330879''"]
  from t k obtain made where
    m: "ensembl_url_builder_factory (Inr (JOther ''104'')) tigr_species = Inr made" by blast
  from t [of made] m k c have
    "cls made = EnsemblUrlBuilder \<and> filename_species made = ''Aspergillus_fumigatus''
     \<and> assembly made = JString ''TIGR'' \<and> species_sub_dir made = JString ''aspergillus_fumigatus''
     \<and> assembly_version made = JOther ''104''"
    by auto
  then have "build_gtf_url made = ''ftp://ftp.ensembl.org/pub/release-104/gtf/aspergillus_fumigatus/Aspergillus_fumigatus.TIGR.104.gtf.gz''
     \<and> cls made = EnsemblUrlBuilder \<and> filename_species made = ''Aspergillus_fumigatus''
     \<and> assembly made = JString ''TIGR''"
    by (simp add: build_gtf_url_def format_url_root_def)
  with m k show ?thesis by blast
qed


text \<open>
  What the Fungi constructor would have made of the same species: the file name from the
  \<open>species\<close> key and the assembly renamed.
\<close>

lemma fungi_constructor_renames:
  "map_sum id (\<lambda>b. (assembly b, filename_species b))
     (EnsemblFungiUrlBuilder_init EnsemblFungiUrlBuilder (Inr (JOther ''104'')) tigr_species)
   = Inr (JString ''CADRE'', ''Aspergillus_fumigatusa1163'')"
  by code_simp

section \<open>Batch grouping\<close>

lemma verify_loop_eq:
  "verify_loop (first # others) bs =
     (if \<forall>b \<in> set bs. download_url b = download_url first then None
      else Some (ValueError ''A batch doesn't have the same download url as other batches.''))"
  by (induction bs) auto

text \<open>
  C10. \<open>_verify_batch_grouping\<close> raises its \<open>ValueError\<close> exactly when some batch of the
  list has a download URL other than the first batch's; it returns normally exactly when
  the list is empty or every batch has the first batch's URL; either way the batches are
  as they were.
\<close>

theorem verify_batch_grouping_raises_iff:
  "(fst (verify_batch_grouping batches job_number)
      = Some (ValueError ''A batch doesn't have the same download url as other batches.'')
    \<longleftrightarrow> (case batches of [] \<Rightarrow> False
         | first # others \<Rightarrow> \<exists>b \<in> set batches. download_url b \<noteq> download_url first))
   \<and> (fst (verify_batch_grouping batches job_number) = None
    \<longleftrightarrow> (case batches of [] \<Rightarrow> True
         | first # others \<Rightarrow> \<forall>b \<in> set batches. download_url b = download_url first))
   \<and> snd (verify_batch_grouping batches job_number) = batches"
  apply (cases batches)
   apply (simp add: verify_batch_grouping_def)
  apply (simp add: verify_batch_grouping_def verify_loop_eq)
  done

theorem verify_batch_grouping_raises_iff_witness:
  "fst (verify_batch_grouping [batch_one, batch_two, batch_one] 7)
      = Some (ValueError ''A batch doesn't have the same download url as other batches.'')
   \<and> (\<exists>b \<in> set [batch_one, batch_two, batch_one]. download_url b \<noteq> download_url batch_one)
   \<and> fst (verify_batch_grouping [batch_one, batch_one] 7) = None
   \<and> fst (verify_batch_grouping [] 7) = None"
proof -
  have ne: "download_url batch_two \<noteq> download_url batch_one"
    by (simp add: batch_one_def batch_two_def)
  then have d: "\<exists>b \<in> set [batch_one, batch_two, batch_one].
                  download_url b \<noteq> download_url batch_one"
    by simp
  have s: "\<forall>b \<in> set [batch_one, batch_one]. download_url b = download_url batch_one"
    by simp
  have r1: "fst (verify_batch_grouping [batch_one, batch_two, batch_one] 7)
      = Some (ValueError ''A batch doesn't have the same download url as other batches.'')"
    using d verify_batch_grouping_raises_iff [of "[batch_one, batch_two, batch_one]" 7]
    by (simp only: list.case) 
  have r2: "fst (verify_batch_grouping [batch_one, batch_one] 7) = None"
    using s verify_batch_grouping_raises_iff [of "[batch_one, batch_one]" 7]
    by (simp only: list.case)
  have r3: "fst (verify_batch_grouping [] 7) = None"
    using verify_batch_grouping_raises_iff [of "[]" 7]
    by (simp only: list.case)
  from r1 r2 r3 d s show ?thesis by blast
qed

section \<open>The stages: success flags and failure handling\<close>

lemmas run_defs =
  smash_all_def smash_all_try_def smash_all_except_def smash_key_def process_frames_for_key_def
  inner_join_def inner_join_init_def smash_merged_def qn_try_def qn_except_def save_dataset_def
  scale_frame_def write_key_def Let_def

lemmas input_defs =
  qn_ctx_def qn_failing_env_def working_env_def fresh_ctx_def fresh_dataset_def fresh_job_def
  the_file_def the_sample_def frame_ab_def

text \<open>
  C1 does not hold of the code. For a dataset with one key whose quantile normalization
  raises, \<open>_smash_key\<close> returns normally with the dataset's success flag false and
  saved so; \<open>_smash_all\<close> then goes on past its loop, sets the flag to true and saves
  the dataset again. The job store sees the flag false, then true, in one run, and the
  run ends with the dataset marked successful and the job marked failed.
\<close>

theorem success_reset_after_normalization_failure:
  "fst (smash_key qn_failing_env
          (qn_ctx\<lparr>unsmashable_files := [], num_samples := 0, input_files := None\<rparr>)
          ''GSE1'' [(the_file, the_sample)]) = None
   \<and> ds_success (dataset (snd (smash_key qn_failing_env
          (qn_ctx\<lparr>unsmashable_files := [], num_samples := 0, input_files := None\<rparr>)
          ''GSE1'' [(the_file, the_sample)]))) = Some False
   \<and> fst (smash_all qn_failing_env qn_ctx) = None
   \<and> map ds_success (saved (snd (smash_all qn_failing_env qn_ctx))) = [Some False, Some True]
   \<and> ds_success (dataset (snd (smash_all qn_failing_env qn_ctx))) = Some True
   \<and> job_success (job (snd (smash_all qn_failing_env qn_ctx))) = Some False"
  by (simp add: run_defs input_defs)


lemma qn_except_effects:
  "ds_success (dataset (qn_except e c)) = Some False
   \<and> job_success (job (qn_except e c)) = Some False
   \<and> ctx_failure_reason (qn_except e c) = Some (str_exn e)
   \<and> saved (qn_except e c) = saved c @ [dataset (qn_except e c)]
   \<and> (if truthy (job_failure_reason (job c))
       then job_failure_reason (job (qn_except e c)) = job_failure_reason (job c)
            \<and> ds_failure_reason (dataset (qn_except e c)) = ds_failure_reason (dataset c)
       else job_failure_reason (job (qn_except e c)) = Some (''Failure reason: '' @ str_exn e)
            \<and> ds_failure_reason (dataset (qn_except e c))
                = Some (''Failure reason: '' @ str_exn e))"
  by (simp add: qn_except_def save_dataset_def Let_def)

text \<open>
  C6, as the code has it. When quantile normalization is requested for a key and the
  normalization step fails with \<open>e\<close> (an exception, or no normalized frame),
  \<open>_smash_key\<close> returns the context normally, with the dataset's and the job's success
  flags false, the detail \<open>str(e)\<close> under the context's \<open>failure_reason\<close>, and the
  dataset saved as it then is. The detail becomes the job's and the dataset's
  \<open>failure_reason\<close> when the job has none yet; a job that already has a failure reason
  keeps it, and the dataset's is then left as it was.
\<close>

theorem normalization_failure_is_recorded:
  assumes "\<not> quant_sf_only (dataset ctx)"
    and "process_frames_for_key env key files ctx = (None, c1)"
    and "all_frames c1 \<noteq> []"
    and "inner_join c1 = Inr (frame, c2)"
    and "quantile_normalize (dataset c2)"
    and "qn_try env (c2\<lparr>original_merged := Some frame\<rparr>) frame = (Inl e, c3)"
  shows "\<exists>c. smash_key env ctx key files = (None, c)
           \<and> ds_success (dataset c) = Some False
           \<and> job_success (job c) = Some False
           \<and> ctx_failure_reason c = Some (str_exn e)
           \<and> saved c = saved c3 @ [dataset c]
           \<and> (if truthy (job_failure_reason (job c3))
               then job_failure_reason (job c) = job_failure_reason (job c3)
                    \<and> ds_failure_reason (dataset c) = ds_failure_reason (dataset c3)
               else job_failure_reason (job c) = Some (''Failure reason: '' @ str_exn e)
                    \<and> ds_failure_reason (dataset c) = Some (''Failure reason: '' @ str_exn e))"
proof -
  have m: "smash_merged env key frame c2 = (None, qn_except e c3)"
    using assms(5,6) by (simp add: smash_merged_def Let_def)
  have l: "\<not> length (all_frames c1) < 1" using assms(3) by (cases "all_frames c1") simp_all
  have "smash_key env ctx key files = (None, qn_except e c3)"
    using assms(1,2,4) l m by (simp add: smash_key_def)
  with qn_except_effects [of e c3] show ?thesis by simp
qed

theorem normalization_failure_is_recorded_witness:
  "\<not> quant_sf_only (dataset key_ctx)
   \<and> process_frames_for_key qn_failing_env ''GSE1'' [(the_file, the_sample)] key_ctx
       = (None, key_ctx\<lparr>original_merged := Some \<lparr>columns = [], rows = []\<rparr>,
                        all_frames := [frame_ab]\<rparr>)
   \<and> (\<exists>c. smash_key qn_failing_env key_ctx ''GSE1'' [(the_file, the_sample)] = (None, c)
          \<and> ds_success (dataset c) = Some False
          \<and> job_success (job c) = Some False
          \<and> job_failure_reason (job c) = Some ''Failure reason: no QN target''
          \<and> ds_failure_reason (dataset c) = Some ''Failure reason: no QN target'')"
proof -
  let ?c1 = "key_ctx\<lparr>original_merged := Some \<lparr>columns = [], rows = []\<rparr>,
                      all_frames := [frame_ab]\<rparr>"
  let ?c3 = "?c1\<lparr>original_merged := Some frame_ab, merged_no_qn := Some frame_ab,
                  organism := Some ''HOMO_SAPIENS''\<rparr>"
  have h1: "\<not> quant_sf_only (dataset key_ctx)"
    by (simp add: key_ctx_def input_defs)
  have h2: "process_frames_for_key qn_failing_env ''GSE1'' [(the_file, the_sample)] key_ctx
              = (None, ?c1)"
    by (simp add: process_frames_for_key_def key_ctx_def input_defs)
  have h3: "all_frames ?c1 \<noteq> []" by simp
  have h4: "inner_join ?c1 = Inr (frame_ab, ?c1)"
    by (simp add: inner_join_def inner_join_init_def)
  have h5: "quantile_normalize (dataset ?c1)"
    by (simp add: key_ctx_def input_defs)
  have h6: "qn_try qn_failing_env (?c1\<lparr>original_merged := Some frame_ab\<rparr>) frame_ab
              = (Inl (Exception ''no QN target''), ?c3)"
    by (simp add: qn_try_def key_ctx_def input_defs)
  have f: "\<not> truthy (job_failure_reason (job ?c3))"
    by (simp add: key_ctx_def input_defs)
  from normalization_failure_is_recorded [OF h1 h2 h3 h4 h5 h6] f h1 h2
  show ?thesis by auto
qed

text \<open>
  C6 as stated fails for the second key of a run whose first key already failed: the job
  and the dataset keep the first failure's reason, and only the context's
  \<open>failure_reason\<close> carries the detail of the second failure.
\<close>

theorem earlier_failure_reason_is_kept:
  "job_failure_reason
     (job (snd (smash_key second_failure_env
                  (snd (smash_key qn_failing_env key_ctx ''GSE1'' [(the_file, the_sample)]))
                  ''GSE2'' [(the_file, the_sample)])))
     = Some ''Failure reason: no QN target''
   \<and> ds_failure_reason
       (dataset (snd (smash_key second_failure_env
                        (snd (smash_key qn_failing_env key_ctx ''GSE1'' [(the_file, the_sample)]))
                        ''GSE2'' [(the_file, the_sample)])))
       = Some ''Failure reason: no QN target''
   \<and> ctx_failure_reason
       (snd (smash_key second_failure_env
               (snd (smash_key qn_failing_env key_ctx ''GSE1'' [(the_file, the_sample)]))
               ''GSE2'' [(the_file, the_sample)]))
       = Some ''second failure''"
  by (simp add: run_defs input_defs key_ctx_def second_failure_env_def)

lemma upload_try_keeps:
  "job (snd (upload_try env file ctx)) = job ctx
   \<and> ds_success (dataset (snd (upload_try env file ctx))) = ds_success (dataset ctx)
   \<and> ctx_success (snd (upload_try env file ctx)) = ctx_success ctx"
  by (simp add: upload_try_def save_dataset_def Let_def split: option.split sum.split)

lemma upload_stage_no_raise: "fst (upload_stage env ctx) = None"
  by (simp add: upload_stage_def split: option.split prod.split)

lemma upload_stage_keeps:
  "ds_success (dataset (snd (upload_stage env ctx))) = ds_success (dataset ctx)
   \<and> ctx_success (snd (upload_stage env ctx)) = ctx_success ctx"
proof (cases "output_file ctx")
  case None
  then show ?thesis by (simp add: upload_stage_def)
next
  case (Some path)
  obtain r c where u: "upload_try env path ctx = (r, c)" by (cases "upload_try env path ctx")
  with upload_try_keeps [of env path ctx]
  have "ds_success (dataset c) = ds_success (dataset ctx) \<and> ctx_success c = ctx_success ctx"
    by simp
  with Some u show ?thesis by (cases r) (simp_all add: upload_stage_def)
qed

lemma upload_stage_failure:
  assumes "output_file ctx = Some file" and "file \<noteq> []"
    and "fst (upload_try env file ctx) = Some e"
  shows "job_success (job (snd (upload_stage env ctx))) = Some False
         \<and> job_failure_reason (job (snd (upload_stage env ctx)))
             = Some (''Failure reason: '' @ str_exn e)"
proof -
  obtain c where "upload_try env file ctx = (Some e, c)"
    using assms(3) by (cases "upload_try env file ctx") simp
  with assms(1,2) show ?thesis by (simp add: upload_stage_def)
qed

lemma notify_send_email_keeps:
  "job (snd (notify_send_email env r ctx)) = job ctx
   \<and> dataset (snd (notify_send_email env r ctx)) = dataset ctx
   \<and> result_url (snd (notify_send_email env r ctx)) = result_url ctx"
  by (simp add: notify_send_email_def Let_def split: option.split)

lemma notify_keeps:
  "job (snd (notify env ctx)) = job ctx \<and> dataset (snd (notify env ctx)) = dataset ctx"
proof (cases "email_address (dataset ctx)")
  case None
  then show ?thesis by (simp add: notify_def)
next
  case (Some r)
  obtain x c where n: "notify_send_email env r ctx = (x, c)"
    by (cases "notify_send_email env r ctx")
  with notify_send_email_keeps [of env r ctx]
  have "job c = job ctx \<and> dataset c = dataset ctx" by simp
  with Some n show ?thesis
    by (simp add: notify_def split: option.split exn.split)
qed

lemma notify_raises_iff:
  "fst (notify env ctx) \<noteq> None \<longleftrightarrow>
     get_upload ctx \<and> RUNNING_IN_CLOUD env
     \<and> (\<exists>r. email_address (dataset ctx) = Some r \<and> r \<noteq> []
              \<and> fst (notify_send_email env r ctx) \<noteq> None)"
proof (cases "email_address (dataset ctx)")
  case None
  then show ?thesis by (simp add: notify_def)
next
  case (Some r)
  obtain x c where n: "notify_send_email env r ctx = (x, c)"
    by (cases "notify_send_email env r ctx")
  with Some show ?thesis
    by (cases x) (auto simp: notify_def split: option.split exn.split)
qed

lemma notify_send_email_ignores_slack:
  "notify_send_email (env\<lparr>requests_post := p\<rparr>) r ctx = notify_send_email env r ctx"
  by (simp add: notify_send_email_def Let_def split: option.split)

lemma notify_ignores_slack: "notify (env\<lparr>requests_post := p\<rparr>) ctx = notify env ctx"
  by (simp add: notify_def notify_send_email_ignores_slack split: option.split)


text \<open>
  C2, as the code has it. \<open>_upload\<close> never raises and never changes the dataset's
  success flag or the context's \<open>success\<close>, but an upload error it handles marks the job
  failed: the job's success flag becomes false and its failure reason the detail.
  \<open>_notify\<close> leaves the job and the dataset as they were, and a failure of the
  operations alert is swallowed (the outcome does not depend on what the webhook call
  does); it raises exactly when there is a user email to send and sending it fails.
\<close>

theorem delivery_failure_effects:
  "fst (upload_stage env ctx) = None
   \<and> ds_success (dataset (snd (upload_stage env ctx))) = ds_success (dataset ctx)
   \<and> ctx_success (snd (upload_stage env ctx)) = ctx_success ctx
   \<and> (output_file ctx = Some archive \<and> archive \<noteq> []
        \<and> fst (upload_try env archive ctx) = Some e
      \<longrightarrow> job_success (job (snd (upload_stage env ctx))) = Some False
          \<and> job_failure_reason (job (snd (upload_stage env ctx)))
              = Some (''Failure reason: '' @ str_exn e))
   \<and> job (snd (notify env ctx)) = job ctx
   \<and> dataset (snd (notify env ctx)) = dataset ctx
   \<and> notify (env\<lparr>requests_post := post\<rparr>) ctx = notify env ctx
   \<and> (fst (notify env ctx) \<noteq> None \<longleftrightarrow>
        get_upload ctx \<and> RUNNING_IN_CLOUD env
        \<and> (\<exists>r. email_address (dataset ctx) = Some r \<and> r \<noteq> []
                 \<and> fst (notify_send_email env r ctx) \<noteq> None))"
proof (intro conjI impI)
  show "fst (upload_stage env ctx) = None" by (rule upload_stage_no_raise)
  show "ds_success (dataset (snd (upload_stage env ctx))) = ds_success (dataset ctx)"
    "ctx_success (snd (upload_stage env ctx)) = ctx_success ctx"
    using upload_stage_keeps [of env ctx] by simp_all
  show "job (snd (notify env ctx)) = job ctx" "dataset (snd (notify env ctx)) = dataset ctx"
    using notify_keeps [of env ctx] by simp_all
  show "notify (env\<lparr>requests_post := post\<rparr>) ctx = notify env ctx"
    by (rule notify_ignores_slack)
  show "fst (notify env ctx) \<noteq> None \<longleftrightarrow>
        get_upload ctx \<and> RUNNING_IN_CLOUD env
        \<and> (\<exists>r. email_address (dataset ctx) = Some r \<and> r \<noteq> []
                 \<and> fst (notify_send_email env r ctx) \<noteq> None)"
    by (rule notify_raises_iff)
next
  assume a: "output_file ctx = Some archive \<and> archive \<noteq> []
             \<and> fst (upload_try env archive ctx) = Some e"
  then show "job_success (job (snd (upload_stage env ctx))) = Some False"
    "job_failure_reason (job (snd (upload_stage env ctx)))
       = Some (''Failure reason: '' @ str_exn e)"
    using upload_stage_failure [of ctx archive env e] by simp_all
qed

lemmas delivery_defs =
  upload_stage_def upload_try_def notify_def notify_send_email_def get_upload_def
  save_dataset_def Let_def

lemmas delivery_inputs =
  upload_failing_env_def mail_failing_env_def packaged_ctx_def working_env_def
  fresh_ctx_def fresh_dataset_def fresh_job_def

theorem delivery_failure_effects_witness:
  "output_file packaged_ctx = Some ''/home/user/data_store/smashed/d1.zip''
   \<and> fst (upload_try upload_failing_env ''/home/user/data_store/smashed/d1.zip'' packaged_ctx)
       = Some (Exception ''S3 down'')
   \<and> job_failure_reason (job (snd (upload_stage upload_failing_env packaged_ctx)))
       = Some ''Failure reason: S3 down''
   \<and> get_upload packaged_ctx \<and> RUNNING_IN_CLOUD mail_failing_env
   \<and> email_address (dataset packaged_ctx) = Some ''user@example.org''
   \<and> fst (notify_send_email mail_failing_env ''user@example.org'' packaged_ctx) \<noteq> None
   \<and> fst (notify mail_failing_env packaged_ctx) \<noteq> None"
proof -
  have o: "output_file packaged_ctx = Some ''/home/user/data_store/smashed/d1.zip''"
    by (simp add: packaged_ctx_def)
  have u: "fst (upload_try upload_failing_env ''/home/user/data_store/smashed/d1.zip''
                  packaged_ctx) = Some (Exception ''S3 down'')"
    by (simp add: delivery_defs delivery_inputs)
  have g: "get_upload packaged_ctx \<and> RUNNING_IN_CLOUD mail_failing_env"
    by (simp add: delivery_defs delivery_inputs)
  have m: "email_address (dataset packaged_ctx) = Some ''user@example.org''"
    by (simp add: delivery_inputs)
  have f: "fst (notify_send_email mail_failing_env ''user@example.org'' packaged_ctx) \<noteq> None"
    by (simp add: delivery_defs delivery_inputs)
  have ne: "''user@example.org'' \<noteq> []" by simp
  note t1 = delivery_failure_effects [of upload_failing_env packaged_ctx
              "''/home/user/data_store/smashed/d1.zip''" "Exception ''S3 down''"]
  note t2 = delivery_failure_effects [of mail_failing_env packaged_ctx]
  from t1 o u have r: "job_failure_reason (job (snd (upload_stage upload_failing_env packaged_ctx)))
       = Some ''Failure reason: S3 down''" by simp
  from t2 g m f ne have n: "fst (notify mail_failing_env packaged_ctx) \<noteq> None" by blast
  from o u r g m f n show ?thesis by blast
qed

text \<open>
  C2 as stated fails twice: an upload error turns the job's success flag from unset to
  false, and a mail service error leaves \<open>_notify\<close> as an exception.
\<close>

theorem delivery_failure_changes_job_success:
  "job_success (job packaged_ctx) = None
   \<and> job_success (job (snd (upload_stage upload_failing_env packaged_ctx))) = Some False
   \<and> fst (notify mail_failing_env packaged_ctx)
       = Some (ProcessorJobError ''ClientError while notifying'')"
  by (simp add: delivery_defs delivery_inputs)

end
